theory Spec2Isabelle
  imports Complex_Main "HOL-Library.Signed_Division"
begin

section \<open>The chain client, the library and the process environment\<close>

text \<open>
  The operations of \<^verbatim>\<open>swap.ts\<close>, \<^verbatim>\<open>wrapUnwrap.ts\<close>, the staking module and the transfer
  handlers of \<^verbatim>\<open>index.ts\<close> are asynchronous functions that call the chain client
  (\<^verbatim>\<open>publicClient\<close>, \<^verbatim>\<open>walletClient\<close>) and catch every exception in one outer
  \<^verbatim>\<open>try/catch\<close>. They are modelled as functions of an environment and a world state
  that return the result, the list of chain calls made (each with the answer it got) and the
  world state reached. A thrown \<^verbatim>\<open>Error\<close> is the value \<open>Inl message\<close>.
\<close>

type_synonym address = string
type_synonym hash = string

text \<open>\<^verbatim>\<open>receipt.status\<close> as the code inspects it: by \<^verbatim>\<open>typeof\<close> and by value.\<close>

datatype tx_status =
    StatusString string
  | StatusNumber int
  | StatusBigint int
  | StatusUndefined

record receipt =
  status :: tx_status
  blockNumber :: int
  transactionHash :: hash

text \<open>Arguments of a contract call: \<^verbatim>\<open>uint256\<close>, \<^verbatim>\<open>address\<close>, \<^verbatim>\<open>address[]\<close>.\<close>

datatype arg = Uint int | Addr address | AddrArray "address list"

text \<open>
  One event per call of the chain client, with the answer. \<^verbatim>\<open>readContract\<close> appears at
  the two output types of the ABIs in use: \<^verbatim>\<open>uint256\<close> (\<^verbatim>\<open>allowance\<close>,
  \<^verbatim>\<open>balanceOf\<close>) and \<^verbatim>\<open>uint256[]\<close> (\<^verbatim>\<open>getAmountsOut\<close>). The optional integer of
  \<open>WriteContract\<close> is the \<^verbatim>\<open>value\<close> field; the two naturals of
  \<open>WaitForTransactionReceipt\<close> are \<^verbatim>\<open>timeout\<close> and \<^verbatim>\<open>confirmations\<close>.
\<close>

datatype event =
    GetBlock "string + int"
  | GetBalance address "string + int"
  | ReadContract address string "arg list" "string + int"
  | ReadContractArray address string "arg list" "string + int list"
  | WriteContract address string "arg list" "int option" "string + hash"
  | SendTransaction address int "string + hash"
  | WaitForTransactionReceipt hash nat nat "string + receipt"

text \<open>
  The environment: the process variable \<^verbatim>\<open>TEST_WALLET_PRIVATE_KEY\<close>, whether the dynamic
  \<^verbatim>\<open>import('./config.js')\<close> of \<^verbatim>\<open>wrapUnwrap.ts\<close> succeeds, the pure functions of the
  viem library (\<^verbatim>\<open>privateKeyToAccount\<close>, \<^verbatim>\<open>parseUnits\<close>, \<^verbatim>\<open>formatUnits\<close>; their source
  is not part of the repository, so they are parameters), and the chain client, whose
  answers may depend on a world state \<open>'w\<close> that every call may change.
\<close>

record 'w env =
  TEST_WALLET_PRIVATE_KEY :: "string option"
  configImports :: bool
  privateKeyToAccount :: "string \<Rightarrow> string + address"
  parseUnits :: "string \<Rightarrow> nat \<Rightarrow> string + int"
  formatUnits :: "int \<Rightarrow> nat \<Rightarrow> string"
  getBlock :: "'w \<Rightarrow> (string + int) \<times> 'w"
  getBalance :: "address \<Rightarrow> 'w \<Rightarrow> (string + int) \<times> 'w"
  readContract :: "address \<Rightarrow> string \<Rightarrow> arg list \<Rightarrow> 'w \<Rightarrow> (string + int) \<times> 'w"
  readContractArray :: "address \<Rightarrow> string \<Rightarrow> arg list \<Rightarrow> 'w \<Rightarrow> (string + int list) \<times> 'w"
  writeContract :: "address \<Rightarrow> string \<Rightarrow> arg list \<Rightarrow> int option \<Rightarrow> 'w \<Rightarrow> (string + hash) \<times> 'w"
  sendTransaction :: "address \<Rightarrow> int \<Rightarrow> 'w \<Rightarrow> (string + hash) \<times> 'w"
  waitForTransactionReceipt :: "hash \<Rightarrow> nat \<Rightarrow> nat \<Rightarrow> 'w \<Rightarrow> (string + receipt) \<times> 'w"

subsection \<open>Sequencing with exceptions and a call log\<close>

type_synonym ('w, 'a) io = "'w \<Rightarrow> (string + 'a) \<times> event list \<times> 'w"

definition return :: "'a \<Rightarrow> ('w, 'a) io" where
  "return x = (\<lambda>w. (Inr x, [], w))"

definition throw :: "string \<Rightarrow> ('w, 'a) io" where
  "throw e = (\<lambda>w. (Inl e, [], w))"

definition bind :: "('w, 'a) io \<Rightarrow> ('a \<Rightarrow> ('w, 'b) io) \<Rightarrow> ('w, 'b) io" where
  "bind m f = (\<lambda>w. case m w of
       (Inl e, tr, w') \<Rightarrow> (Inl e, tr, w')
     | (Inr x, tr, w') \<Rightarrow> (case f x w' of (r, tr', w'') \<Rightarrow> (r, tr @ tr', w'')))"

text \<open>\<^verbatim>\<open>try { m } catch (e) { h(e) }\<close>\<close>

definition catch :: "('w, 'a) io \<Rightarrow> (string \<Rightarrow> ('w, 'a) io) \<Rightarrow> ('w, 'a) io" where
  "catch m h = (\<lambda>w. case m w of
       (Inl e, tr, w') \<Rightarrow> (case h e w' of (r, tr', w'') \<Rightarrow> (r, tr @ tr', w''))
     | (Inr x, tr, w') \<Rightarrow> (Inr x, tr, w'))"

definition ofSum :: "string + 'a \<Rightarrow> ('w, 'a) io" where
  "ofSum r = (case r of Inl e \<Rightarrow> throw e | Inr x \<Rightarrow> return x)"

text \<open>The result objects \<^verbatim>\<open>{success: true, ...}\<close> and \<^verbatim>\<open>{success: false, error}\<close>.\<close>

datatype 'a result = Success 'a | Failure string

definition success :: "'a result \<Rightarrow> bool" where
  "success r = (case r of Success _ \<Rightarrow> True | Failure _ \<Rightarrow> False)"

text \<open>
  The outer \<^verbatim>\<open>try { ... return {success: true, ...} } catch (error) { return {success:
  false, error: error.message} }\<close> of every operation.
\<close>

definition tryCatch :: "('w, 'a) io \<Rightarrow> 'w \<Rightarrow> 'a result \<times> event list \<times> 'w" where
  "tryCatch m = (\<lambda>w. case m w of
       (Inl e, tr, w') \<Rightarrow> (Failure e, tr, w')
     | (Inr x, tr, w') \<Rightarrow> (Success x, tr, w'))"

subsection \<open>Calls of the chain client\<close>

definition call_getBlock :: "'w env \<Rightarrow> ('w, int) io" where
  "call_getBlock E = (\<lambda>w. case getBlock E w of (r, w') \<Rightarrow> (r, [GetBlock r], w'))"

definition call_getBalance :: "'w env \<Rightarrow> address \<Rightarrow> ('w, int) io" where
  "call_getBalance E a = (\<lambda>w. case getBalance E a w of (r, w') \<Rightarrow> (r, [GetBalance a r], w'))"

definition call_readContract :: "'w env \<Rightarrow> address \<Rightarrow> string \<Rightarrow> arg list \<Rightarrow> ('w, int) io" where
  "call_readContract E a f args =
     (\<lambda>w. case readContract E a f args w of (r, w') \<Rightarrow> (r, [ReadContract a f args r], w'))"

definition call_readContractArray ::
  "'w env \<Rightarrow> address \<Rightarrow> string \<Rightarrow> arg list \<Rightarrow> ('w, int list) io" where
  "call_readContractArray E a f args =
     (\<lambda>w. case readContractArray E a f args w of
             (r, w') \<Rightarrow> (r, [ReadContractArray a f args r], w'))"

definition call_writeContract ::
  "'w env \<Rightarrow> address \<Rightarrow> string \<Rightarrow> arg list \<Rightarrow> int option \<Rightarrow> ('w, hash) io" where
  "call_writeContract E a f args v =
     (\<lambda>w. case writeContract E a f args v w of
             (r, w') \<Rightarrow> (r, [WriteContract a f args v r], w'))"

definition call_sendTransaction :: "'w env \<Rightarrow> address \<Rightarrow> int \<Rightarrow> ('w, hash) io" where
  "call_sendTransaction E to v =
     (\<lambda>w. case sendTransaction E to v w of (r, w') \<Rightarrow> (r, [SendTransaction to v r], w'))"

definition call_waitForTransactionReceipt ::
  "'w env \<Rightarrow> hash \<Rightarrow> nat \<Rightarrow> nat \<Rightarrow> ('w, receipt) io" where
  "call_waitForTransactionReceipt E h t c =
     (\<lambda>w. case waitForTransactionReceipt E h t c w of
             (r, w') \<Rightarrow> (r, [WaitForTransactionReceipt h t c r], w'))"

section \<open>Configuration (\<^verbatim>\<open>config.ts\<close>)\<close>

record token_config =
  name :: string
  symbol :: string
  decimals :: nat
  address :: address

definition token :: "string \<Rightarrow> string \<Rightarrow> nat \<Rightarrow> address \<Rightarrow> token_config" where
  "token n s d a = \<lparr>name = n, symbol = s, decimals = d, address = a\<rparr>"

text \<open>\<^verbatim>\<open>TOKEN_MAP\<close>, in the order of its keys (\<^verbatim>\<open>Object.keys\<close> keeps insertion order).\<close>

definition TOKEN_MAP :: "(string \<times> token_config) list" where
  "TOKEN_MAP =
    [(''MON'', token ''Monad'' ''MON'' 18 ''0x0000000000000000000000000000000000000000''),
     (''WMON'', token ''Wrapped MON'' ''WMON'' 18 ''0x760AfE86e5de5fa0Ee542fc7B7B713e1c5425701''),
     (''aprMON'', token ''Apriori Staked MON'' ''aprMON'' 18 ''0xb2f82D0f38dc453D596Ad40A37799446Cc89274A''),
     (''USDC'', token ''USD Coin'' ''USDC'' 6 ''0xf817257fed379853cDe0fa4F97AB987181B1E5Ea''),
     (''USDT'', token ''Tether USD'' ''USDT'' 6 ''0x88b8E2161DEDC77EF4ab7585569D2415a1C1055D''),
     (''WETH'', token ''Wrapped Ethereum'' ''WETH'' 18 ''0xB5a30b0FDc5EA94A52fDc42e3E9760Cb8449Fb37''),
     (''WBTC'', token ''Wrapped Bitcoin'' ''WBTC'' 8 ''0xcf5a6076cfa32686c0Df13aBaDa2b40dec133F1d''),
     (''DAK'', token ''Daiki Finance'' ''DAK'' 18 ''0x0F0BDEbF0F83cD1EE3974779Bcb7315f9808c714''),
     (''COG'', token ''Cogito'' ''COG'' 18 ''0xE0590015A873bF326bd645c3E1266d4db41C4E6B''),
     (''YAKI'', token ''Yaki Finance'' ''YAKI'' 18 ''0xfe140e1dCe99Be9F4F15d657CD9b7BF622270C50''),
     (''shMON'', token ''Staked MON'' ''shMON'' 18 ''0x3a98250F98Dd388C211206983453837C8365BDc1''),
     (''gMON'', token ''Governance MON'' ''gMON'' 18 ''0xaEef2f6B429Cb59C9B2D7bB2141ADa993E8571c3'')]"

text \<open>\<^verbatim>\<open>Object.keys(TOKEN_MAP)\<close>\<close>

definition keys :: "string list" where
  "keys = map fst TOKEN_MAP"

text \<open>
  \<^verbatim>\<open>TOKEN_MAP[k].address\<close> and \<^verbatim>\<open>.decimals\<close>: reading a field of \<^verbatim>\<open>undefined\<close> throws a
  \<^verbatim>\<open>TypeError\<close>, whose message is kept up to the name of the field.
\<close>

definition lookupToken :: "string \<Rightarrow> string + token_config" where
  "lookupToken k = (case map_of TOKEN_MAP k of
       None \<Rightarrow> Inl ''Cannot read properties of undefined''
     | Some t \<Rightarrow> Inr t)"

subsection \<open>Strings\<close>

text \<open>
  \<^verbatim>\<open>toLowerCase\<close> and \<^verbatim>\<open>toUpperCase\<close> on the ASCII letters, which is what they do
  on ASCII strings: the token symbols and the addresses of the configuration. JavaScript
  also maps a few characters outside ASCII onto ASCII letters (the Kelvin sign to \<^verbatim>\<open>k\<close>,
  the long s to \<^verbatim>\<open>S\<close>); on strings with such characters the two functions here differ
  from the code's.
\<close>

definition lowerChar :: "char \<Rightarrow> char" where
  "lowerChar c = (let n = (of_char c :: nat) in
     if 65 \<le> n \<and> n \<le> 90 then char_of (n + 32) else c)"

definition upperChar :: "char \<Rightarrow> char" where
  "upperChar c = (let n = (of_char c :: nat) in
     if 97 \<le> n \<and> n \<le> 122 then char_of (n - 32) else c)"

definition toLowerCase :: "string \<Rightarrow> string" where
  "toLowerCase s = map lowerChar s"

definition toUpperCase :: "string \<Rightarrow> string" where
  "toUpperCase s = map upperChar s"

text \<open>\<^verbatim>\<open>xs.join(sep)\<close>\<close>

fun join :: "string \<Rightarrow> string list \<Rightarrow> string" where
  "join sep [] = []"
| "join sep [x] = x"
| "join sep (x # y # ys) = x @ sep @ join sep (y # ys)"

text \<open>\<^verbatim>\<open>s.startsWith('0x')\<close>\<close>

definition startsWith :: "string \<Rightarrow> string \<Rightarrow> bool" where
  "startsWith s p = (take (length p) s = p)"

subsection \<open>The signing account\<close>

text \<open>
  The head of every operation: read the key (\<^verbatim>\<open>!privateKey\<close> holds for a missing and for an
  empty variable), prefix \<^verbatim>\<open>0x\<close> when absent, derive the account.
\<close>

definition formatPrivateKey :: "string \<Rightarrow> string" where
  "formatPrivateKey k = (if \<not> startsWith k ''0x'' then ''0x'' @ k else k)"

definition accountFromEnv :: "'w env \<Rightarrow> string \<Rightarrow> ('w, address) io" where
  "accountFromEnv E missing = (case TEST_WALLET_PRIVATE_KEY E of
       None \<Rightarrow> throw missing
     | Some k \<Rightarrow> if k = [] then throw missing
                 else ofSum (privateKeyToAccount E (formatPrivateKey k)))"

section \<open>Swaps (\<^verbatim>\<open>swap.ts\<close>)\<close>

definition SWAP_ROUTER_ADDRESS :: address where
  "SWAP_ROUTER_ADDRESS = ''0xCa810D095e90Daae6e867c19DF6D9A8C56db2c89''"

text \<open>
  Symbol normalisation, the same lines in \<^verbatim>\<open>getSwapQuote\<close> and \<^verbatim>\<open>executeSwap\<close>:
  \<^verbatim>\<open>Object.keys(TOKEN_MAP).find(key => key.toLowerCase() === token.toLowerCase())\<close>, the two
  support checks, and the canonical spelling.
\<close>

definition findKey :: "string \<Rightarrow> string option" where
  "findKey t = List.find (\<lambda>key. toLowerCase key = toLowerCase t) keys"

definition normalizeTokens :: "string \<Rightarrow> string \<Rightarrow> string + (string \<times> string)" where
  "normalizeTokens fromToken toToken =
    (let sourceTokenExists = findKey fromToken;
         destTokenExists = findKey toToken
     in if sourceTokenExists = None \<and> toUpperCase fromToken \<noteq> ''MON''
        then Inl (''Source token '' @ fromToken @ '' is not supported. Supported tokens: ''
                  @ join '', '' keys)
        else if destTokenExists = None \<and> toUpperCase toToken \<noteq> ''MON''
        then Inl (''Destination token '' @ toToken @ '' is not supported. Supported tokens: ''
                  @ join '', '' keys)
        else Inr (if toUpperCase fromToken = ''MON'' then ''MON''
                  else (case sourceTokenExists of Some k \<Rightarrow> k | None \<Rightarrow> []),
                  if toUpperCase toToken = ''MON'' then ''MON''
                  else (case destTokenExists of Some k \<Rightarrow> k | None \<Rightarrow> [])))"

text \<open>
  \<^verbatim>\<open>sourceToken === "MON" ? TOKEN_MAP["WMON"] : TOKEN_MAP[sourceToken]\<close>: the native asset
  takes the wrapped token's entry.
\<close>

definition tokenInfo :: "string \<Rightarrow> string + token_config" where
  "tokenInfo t = (if t = ''MON'' then lookupToken ''WMON'' else lookupToken t)"

text \<open>\<^verbatim>\<open>(amounts as bigint[])[1]\<close>: \<^verbatim>\<open>undefined\<close> when the array is too short.\<close>

definition second :: "int list \<Rightarrow> int option" where
  "second amounts = (if 1 < length amounts then Some (amounts ! 1) else None)"

record quote =
  q_fromToken :: string
  q_toToken :: string
  q_fromAmount :: string
  q_toAmount :: string

text \<open>
  \<^verbatim>\<open>getSwapQuote\<close>. The path is always the pair of the two addresses. \<^verbatim>\<open>formatUnits\<close> of
  \<^verbatim>\<open>undefined\<close> throws. The field \<^verbatim>\<open>rate\<close>, a double computed from the two amount strings
  for display, is left out of the record.
\<close>

definition getSwapQuote_body :: "'w env \<Rightarrow> string \<Rightarrow> string \<Rightarrow> string \<Rightarrow> ('w, quote) io" where
  "getSwapQuote_body E fromToken toToken amount =
    bind (ofSum (normalizeTokens fromToken toToken)) (\<lambda>(sourceToken, destToken).
    bind (ofSum (tokenInfo sourceToken)) (\<lambda>sourceTokenInfo.
    bind (ofSum (tokenInfo destToken)) (\<lambda>destTokenInfo.
    let path = [address sourceTokenInfo, address destTokenInfo] in
    bind (ofSum (parseUnits E amount (decimals sourceTokenInfo))) (\<lambda>amountIn.
    bind (call_readContractArray E SWAP_ROUTER_ADDRESS ''getAmountsOut''
            [Uint amountIn, AddrArray path]) (\<lambda>amounts.
    case second amounts of
      None \<Rightarrow> throw ''Cannot read properties of undefined''
    | Some expectedOutputAmount \<Rightarrow>
        return \<lparr>q_fromToken = sourceToken, q_toToken = destToken, q_fromAmount = amount,
                q_toAmount = formatUnits E expectedOutputAmount (decimals destTokenInfo)\<rparr>)))))"

definition getSwapQuote ::
  "'w env \<Rightarrow> string \<Rightarrow> string \<Rightarrow> string \<Rightarrow> 'w \<Rightarrow> quote result \<times> event list \<times> 'w" where
  "getSwapQuote E fromToken toToken amount = tryCatch (getSwapQuote_body E fromToken toToken amount)"

text \<open>
  \<^verbatim>\<open>BigInt(x)\<close> of a number: a \<^verbatim>\<open>RangeError\<close> unless \<open>x\<close> is an integer (its message
  also names the number, which is left out here). The slippage is a
  JavaScript number; the model takes its decimal value as a rational and the product
  \<^verbatim>\<open>slippagePercent * 10\<close> exactly, which is what the double product gives for every
  value with at most one decimal.
\<close>

definition BigInt :: "rat \<Rightarrow> string + int" where
  "BigInt x = (if x = of_int \<lfloor>x\<rfloor> then Inr \<lfloor>x\<rfloor>
               else Inl ''The number cannot be converted to a BigInt because it is not an integer'')"

text \<open>\<^verbatim>\<open>a / b\<close> on BigInts truncates towards zero.\<close>

definition bigintDiv :: "int \<Rightarrow> int \<Rightarrow> int" where
  "bigintDiv a b = a sdiv b"

text \<open>\<^verbatim>\<open>const slippageFactor = 1000n - BigInt(slippagePercent * 10)\<close>\<close>

definition slippageFactor :: "rat \<Rightarrow> string + int" where
  "slippageFactor slippagePercent = (case BigInt (slippagePercent * 10) of
       Inl e \<Rightarrow> Inl e
     | Inr b \<Rightarrow> Inr (1000 - b))"

text \<open>
  \<^verbatim>\<open>const amountOutMin = (expectedOutput * slippageFactor) / 1000n\<close>; the product throws a
  \<^verbatim>\<open>TypeError\<close> when \<^verbatim>\<open>expectedOutput\<close> is \<^verbatim>\<open>undefined\<close>.
\<close>

definition amountOutMin :: "int option \<Rightarrow> int \<Rightarrow> string + int" where
  "amountOutMin expectedOutput factor = (case expectedOutput of
       None \<Rightarrow> Inl ''Cannot mix BigInt and other types, use explicit conversions''
     | Some e \<Rightarrow> Inr (bigintDiv (e * factor) 1000))"

record swap_result =
  fromToken :: string
  toToken :: string
  fromAmount :: string
  toAmount :: string
  txHash :: hash
  blockNumber :: int
  sender :: address

text \<open>
  The special case of \<^verbatim>\<open>executeSwap\<close> for aprMON to MON: a fixed three-address path, an
  approval of \<^verbatim>\<open>amountIn\<close>, an expected output computed from \<^verbatim>\<open>amountIn\<close> alone, the swap,
  and the result returned as soon as a receipt arrives.
\<close>

definition specialPath :: "address list" where
  "specialPath = [''0xb2f82d0f38dc453d596ad40a37799446cc89274a'',
                  ''0xe1d2439b75fb9746e7bc6cb777ae10aa7f7ef9c5'',
                  ''0x760afe86e5de5fa0ee542fc7b7b713e1c5425701'']"

definition swapSpecial ::
  "'w env \<Rightarrow> address \<Rightarrow> string \<Rightarrow> string \<Rightarrow> string \<Rightarrow> int \<Rightarrow> int \<Rightarrow> rat \<Rightarrow> ('w, swap_result) io" where
  "swapSpecial E account sourceToken destToken amount amountIn deadline slippagePercent =
    bind (ofSum (lookupToken ''aprMON'')) (\<lambda>aprMON.
    bind (call_writeContract E (address aprMON) ''approve''
            [Addr SWAP_ROUTER_ADDRESS, Uint amountIn] None) (\<lambda>approvalHash.
    bind (call_waitForTransactionReceipt E approvalHash 60000 1) (\<lambda>_.
    let expectedOutput = bigintDiv (amountIn * 9988) 10000 in
    bind (ofSum (slippageFactor slippagePercent)) (\<lambda>factor.
    bind (ofSum (amountOutMin (Some expectedOutput) factor)) (\<lambda>minOut.
    bind (call_writeContract E SWAP_ROUTER_ADDRESS ''swapExactTokensForETH''
            [Uint amountIn, Uint minOut, AddrArray specialPath, Addr account, Uint deadline]
            None) (\<lambda>hash.
    bind (call_waitForTransactionReceipt E hash 60000 1) (\<lambda>receipt.
    let formattedOutput = formatUnits E (bigintDiv (amountIn * 9988) 10000) 18 in
    return \<lparr>fromToken = sourceToken, toToken = destToken, fromAmount = amount,
            toAmount = formattedOutput, txHash = hash,
            blockNumber = receipt.blockNumber receipt, sender = account\<rparr>)))))))"

text \<open>
  The three ways of submitting the default swap: native source (a value-bearing call, no
  approval), native destination and token to token (both approve \<^verbatim>\<open>amountIn\<close> and wait for
  the approval's receipt first).
\<close>

definition approveRouter :: "'w env \<Rightarrow> address \<Rightarrow> int \<Rightarrow> ('w, receipt) io" where
  "approveRouter E tokenAddress amountIn =
    bind (call_writeContract E tokenAddress ''approve''
            [Addr SWAP_ROUTER_ADDRESS, Uint amountIn] None) (\<lambda>approvalHash.
    call_waitForTransactionReceipt E approvalHash 60000 1)"

definition submitSwap ::
  "'w env \<Rightarrow> bool \<Rightarrow> bool \<Rightarrow> address \<Rightarrow> address \<Rightarrow> address list \<Rightarrow> int \<Rightarrow> int \<Rightarrow> int
     \<Rightarrow> ('w, hash) io" where
  "submitSwap E isNativeSource isNativeDest account sourceAddress path amountIn minOut deadline =
    (if isNativeSource then
       call_writeContract E SWAP_ROUTER_ADDRESS ''swapExactETHForTokens''
         [Uint minOut, AddrArray path, Addr account, Uint deadline] (Some amountIn)
     else if isNativeDest then
       bind (approveRouter E sourceAddress amountIn) (\<lambda>_.
       call_writeContract E SWAP_ROUTER_ADDRESS ''swapExactTokensForETH''
         [Uint amountIn, Uint minOut, AddrArray path, Addr account, Uint deadline] None)
     else
       bind (approveRouter E sourceAddress amountIn) (\<lambda>_.
       call_writeContract E SWAP_ROUTER_ADDRESS ''swapExactTokensForTokens''
         [Uint amountIn, Uint minOut, AddrArray path, Addr account, Uint deadline] None))"

text \<open>
  \<^verbatim>\<open>if (typeof txStatus === 'string' && txStatus !== 'success') throw ...; else if (typeof
  txStatus === 'number' || typeof txStatus === 'bigint') { if (Number(txStatus) !== 1) throw
  ... }\<close>
\<close>

definition swapStatusFails :: "tx_status \<Rightarrow> bool" where
  "swapStatusFails s = (case s of
       StatusString t \<Rightarrow> t \<noteq> ''success''
     | StatusNumber n \<Rightarrow> n \<noteq> 1
     | StatusBigint n \<Rightarrow> n \<noteq> 1
     | StatusUndefined \<Rightarrow> False)"

definition swapDefault ::
  "'w env \<Rightarrow> address \<Rightarrow> string \<Rightarrow> string \<Rightarrow> token_config \<Rightarrow> token_config \<Rightarrow> string \<Rightarrow> int
     \<Rightarrow> int \<Rightarrow> rat \<Rightarrow> ('w, swap_result) io" where
  "swapDefault E account sourceToken destToken sourceTokenInfo destTokenInfo amount amountIn
       deadline slippagePercent =
    (let path = [address sourceTokenInfo, address destTokenInfo] in
    bind (call_readContractArray E SWAP_ROUTER_ADDRESS ''getAmountsOut''
            [Uint amountIn, AddrArray path]) (\<lambda>amounts.
    let expectedOutput = second amounts in
    bind (ofSum (slippageFactor slippagePercent)) (\<lambda>factor.
    bind (ofSum (amountOutMin expectedOutput factor)) (\<lambda>minOut.
    bind (submitSwap E (sourceToken = ''MON'') (destToken = ''MON'') account
            (address sourceTokenInfo) path amountIn minOut deadline) (\<lambda>hash.
    bind (call_waitForTransactionReceipt E hash 60000 1) (\<lambda>receipt.
    if swapStatusFails (status receipt)
    then throw ''Swap transaction failed or was reverted on blockchain''
    else case expectedOutput of
      None \<Rightarrow> throw ''Cannot read properties of undefined''
    | Some e \<Rightarrow>
        return \<lparr>fromToken = sourceToken, toToken = destToken, fromAmount = amount,
                toAmount = formatUnits E e (decimals destTokenInfo), txHash = hash,
                blockNumber = receipt.blockNumber receipt, sender = account\<rparr>))))))"

text \<open>
  \<^verbatim>\<open>executeSwap\<close>: account, symbols, token entries, \<^verbatim>\<open>parseUnits\<close>, the block timestamp for
  the deadline of twenty minutes, then the special case or the default one. The code adds
  the twenty minutes to \<^verbatim>\<open>Number(block.timestamp)\<close>, which is the integer sum for every
  timestamp below \<open>2\<^sup>5\<^sup>3\<close>.
\<close>

definition executeSwap_body ::
  "'w env \<Rightarrow> string \<Rightarrow> string \<Rightarrow> string \<Rightarrow> rat \<Rightarrow> ('w, swap_result) io" where
  "executeSwap_body E fromTok toTok amount slippagePercent =
    bind (accountFromEnv E ''Private key not found in environment variables'') (\<lambda>account.
    bind (ofSum (normalizeTokens fromTok toTok)) (\<lambda>(sourceToken, destToken).
    bind (ofSum (tokenInfo sourceToken)) (\<lambda>sourceTokenInfo.
    bind (ofSum (tokenInfo destToken)) (\<lambda>destTokenInfo.
    bind (ofSum (parseUnits E amount (decimals sourceTokenInfo))) (\<lambda>amountIn.
    bind (call_getBlock E) (\<lambda>timestamp.
    let deadline = timestamp + 20 * 60 in
    if sourceToken = ''aprMON'' \<and> destToken = ''MON''
    then swapSpecial E account sourceToken destToken amount amountIn deadline slippagePercent
    else swapDefault E account sourceToken destToken sourceTokenInfo destTokenInfo amount
           amountIn deadline slippagePercent))))))"

definition executeSwap ::
  "'w env \<Rightarrow> string \<Rightarrow> string \<Rightarrow> string \<Rightarrow> rat \<Rightarrow> 'w \<Rightarrow> swap_result result \<times> event list \<times> 'w" where
  "executeSwap E fromTok toTok amount slippagePercent =
     tryCatch (executeSwap_body E fromTok toTok amount slippagePercent)"

section \<open>Wrapping and unwrapping (\<^verbatim>\<open>wrapUnwrap.ts\<close>)\<close>

text \<open>
  \<^verbatim>\<open>TOKEN_MAP\<close> is filled by a dynamic import in this module; when the import fails it
  stays \<^verbatim>\<open>undefined\<close> and \<^verbatim>\<open>TOKEN_MAP["WMON"]\<close> throws.
\<close>

definition importedToken :: "'w env \<Rightarrow> string \<Rightarrow> string + token_config" where
  "importedToken E k = (if configImports E then lookupToken k
                        else Inl ''Cannot read properties of undefined'')"

definition getWalletClient :: "'w env \<Rightarrow> ('w, address) io" where
  "getWalletClient E = accountFromEnv E ''Private key not found in environment variables''"

text \<open>\<^verbatim>\<open>receipt.status !== 'success' && receipt.status !== 1\<close>\<close>

definition wrapStatusFails :: "tx_status \<Rightarrow> bool" where
  "wrapStatusFails s = (s \<noteq> StatusString ''success'' \<and> s \<noteq> StatusNumber 1)"

record wrap_result =
  wrap_from :: address
  wrap_txHash :: hash
  wrap_blockNumber :: int
  wrap_amount :: string
  wrap_token :: string
  wrap_otherToken :: string

text \<open>
  \<^verbatim>\<open>wrapMON\<close>; \<^verbatim>\<open>parseEther\<close> and \<^verbatim>\<open>formatEther\<close> are \<^verbatim>\<open>parseUnits\<close> and
  \<^verbatim>\<open>formatUnits\<close> at 18 decimals. The last field of the result is \<^verbatim>\<open>wrappedToken\<close> here
  and \<^verbatim>\<open>unwrappedToken\<close> in \<^verbatim>\<open>unwrapWMON\<close>.
\<close>

definition wrapMON_body :: "'w env \<Rightarrow> string \<Rightarrow> ('w, wrap_result) io" where
  "wrapMON_body E amount =
    bind (getWalletClient E) (\<lambda>account.
    bind (ofSum (parseUnits E amount 18)) (\<lambda>amountInWei.
    bind (ofSum (importedToken E ''WMON'')) (\<lambda>wmon.
    bind (call_getBalance E account) (\<lambda>balance.
    if balance < amountInWei
    then throw (''Insufficient MON balance. You have '' @ formatUnits E balance 18
                @ '' MON but trying to wrap '' @ amount @ '' MON'')
    else
    bind (call_writeContract E (address wmon) ''deposit'' [] (Some amountInWei)) (\<lambda>hash.
    bind (call_waitForTransactionReceipt E hash 60000 1) (\<lambda>receipt.
    if wrapStatusFails (status receipt)
    then throw ''Transaction failed or was reverted on blockchain''
    else return \<lparr>wrap_from = account, wrap_txHash = transactionHash receipt,
                 wrap_blockNumber = receipt.blockNumber receipt, wrap_amount = amount,
                 wrap_token = ''MON'', wrap_otherToken = ''WMON''\<rparr>))))))"

definition wrapMON :: "'w env \<Rightarrow> string \<Rightarrow> 'w \<Rightarrow> wrap_result result \<times> event list \<times> 'w" where
  "wrapMON E amount = tryCatch (wrapMON_body E amount)"

definition unwrapWMON_body :: "'w env \<Rightarrow> string \<Rightarrow> ('w, wrap_result) io" where
  "unwrapWMON_body E amount =
    bind (getWalletClient E) (\<lambda>account.
    bind (ofSum (parseUnits E amount 18)) (\<lambda>amountInWei.
    bind (ofSum (importedToken E ''WMON'')) (\<lambda>wmon.
    bind (call_readContract E (address wmon) ''balanceOf'' [Addr account]) (\<lambda>wmonBalance.
    if wmonBalance < amountInWei
    then throw (''Insufficient WMON balance. You have '' @ formatUnits E wmonBalance 18
                @ '' WMON but trying to unwrap '' @ amount @ '' WMON'')
    else
    bind (call_writeContract E (address wmon) ''withdraw'' [Uint amountInWei] None) (\<lambda>hash.
    bind (call_waitForTransactionReceipt E hash 60000 1) (\<lambda>receipt.
    if wrapStatusFails (status receipt)
    then throw ''Transaction failed or was reverted on blockchain''
    else return \<lparr>wrap_from = account, wrap_txHash = transactionHash receipt,
                 wrap_blockNumber = receipt.blockNumber receipt, wrap_amount = amount,
                 wrap_token = ''WMON'', wrap_otherToken = ''MON''\<rparr>))))))"

definition unwrapWMON :: "'w env \<Rightarrow> string \<Rightarrow> 'w \<Rightarrow> wrap_result result \<times> event list \<times> 'w" where
  "unwrapWMON E amount = tryCatch (unwrapWMON_body E amount)"

section \<open>Staking and unstaking (the staking module)\<close>

definition expectedAddress :: address where
  "expectedAddress = ''0x5b84Dc548e45cC4f1498b95C000C748c1c953f64''"

record stake_result =
  stake_amount :: string
  stake_txHash :: hash
  stake_blockNumber :: int
  stake_from :: address
  stake_method :: string

text \<open>
  \<^verbatim>\<open>stakeMON\<close>: the derived address is compared with the expected one before anything
  else; then the amount, the balance, the \<^verbatim>\<open>deposit\<close> call and its receipt
  (\<^verbatim>\<open>!receipt || receipt.status === 'reverted'\<close>).
\<close>

definition stakeMON_body :: "'w env \<Rightarrow> string \<Rightarrow> ('w, stake_result) io" where
  "stakeMON_body E amount =
    bind (accountFromEnv E ''Private key not found in environment variables'') (\<lambda>account.
    if toLowerCase account \<noteq> toLowerCase expectedAddress
    then throw (''Private key generates different address ('' @ account @ '') than expected (''
                @ expectedAddress @ ''). Please check your private key in .env file.'')
    else
    bind (ofSum (parseUnits E amount 18)) (\<lambda>amountIn.
    bind (call_getBalance E account) (\<lambda>balance.
    if balance < amountIn
    then throw (''Insufficient MON balance. You have '' @ formatUnits E balance 18
                @ '' MON but tried to stake '' @ amount @ '' MON'')
    else
    bind (ofSum (lookupToken ''aprMON'')) (\<lambda>aprMON.
    bind (call_writeContract E (address aprMON) ''deposit'' [Uint amountIn, Addr account]
            (Some amountIn)) (\<lambda>hash.
    bind (call_waitForTransactionReceipt E hash 60000 1) (\<lambda>receipt.
    if status receipt = StatusString ''reverted''
    then throw ''Staking transaction failed or was reverted on blockchain''
    else return \<lparr>stake_amount = amount, stake_txHash = hash,
                 stake_blockNumber = receipt.blockNumber receipt, stake_from = account,
                 stake_method = ''deposit''\<rparr>))))))"

definition stakeMON :: "'w env \<Rightarrow> string \<Rightarrow> 'w \<Rightarrow> stake_result result \<times> event list \<times> 'w" where
  "stakeMON E amount = tryCatch (stakeMON_body E amount)"

record unstake_result =
  unstake_amount :: string
  unstake_receivedAmount :: "string option"
  unstake_txHash :: hash
  unstake_blockNumber :: int
  unstake_from :: address
  unstake_method :: string
  unstake_message :: string

text \<open>
  The approval step of \<^verbatim>\<open>requestUnstakeAprMON\<close>: read the allowance granted to the staking
  contract (the aprMON token itself); approve \<^verbatim>\<open>parseUnits("1000000000", 18)\<close> and wait for
  the receipt only when the allowance is below the amount.
\<close>

definition approveIfNeeded :: "'w env \<Rightarrow> address \<Rightarrow> address \<Rightarrow> int \<Rightarrow> ('w, unit) io" where
  "approveIfNeeded E account staking amountIn =
    bind (call_readContract E staking ''allowance'' [Addr account, Addr staking]) (\<lambda>allowance.
    if allowance < amountIn then
      bind (ofSum (parseUnits E ''1000000000'' 18)) (\<lambda>ceiling.
      bind (call_writeContract E staking ''approve'' [Addr staking, Uint ceiling] None)
        (\<lambda>approvalHash.
      bind (call_waitForTransactionReceipt E approvalHash 60000 1) (\<lambda>_. return ())))
    else return ())"

text \<open>The two direct strategies: \<^verbatim>\<open>withdraw(amount, from, receiver)\<close>, and in its
  \<^verbatim>\<open>catch\<close> a token \<^verbatim>\<open>transfer\<close> to the staking contract.\<close>

definition tryWithdraw :: "'w env \<Rightarrow> address \<Rightarrow> address \<Rightarrow> int \<Rightarrow> ('w, hash \<times> receipt \<times> string) io" where
  "tryWithdraw E account staking amountIn =
    bind (call_writeContract E staking ''withdraw''
            [Uint amountIn, Addr account, Addr account] None) (\<lambda>hash.
    bind (call_waitForTransactionReceipt E hash 60000 1) (\<lambda>receipt.
    return (hash, receipt, ''withdraw'')))"

definition tryTransfer :: "'w env \<Rightarrow> address \<Rightarrow> int \<Rightarrow> ('w, hash \<times> receipt \<times> string) io" where
  "tryTransfer E staking amountIn =
    bind (call_writeContract E staking ''transfer'' [Addr staking, Uint amountIn] None) (\<lambda>hash.
    bind (call_waitForTransactionReceipt E hash 60000 1) (\<lambda>receipt.
    return (hash, receipt, ''transfer'')))"

text \<open>The call of \<^verbatim>\<open>executeSwap\<close>, which never throws, as a step.\<close>

definition call_executeSwap ::
  "'w env \<Rightarrow> string \<Rightarrow> string \<Rightarrow> string \<Rightarrow> rat \<Rightarrow> ('w, swap_result result) io" where
  "call_executeSwap E f t amount s =
    (\<lambda>w. case executeSwap E f t amount s w of (r, tr, w') \<Rightarrow> (Inr r, tr, w'))"

definition requestUnstakeAprMON_body :: "'w env \<Rightarrow> string \<Rightarrow> bool \<Rightarrow> ('w, unstake_result) io" where
  "requestUnstakeAprMON_body E amount useSwap =
    bind (accountFromEnv E ''Private key not found in environment variables'') (\<lambda>account.
    bind (ofSum (parseUnits E amount 18)) (\<lambda>amountIn.
    bind (ofSum (lookupToken ''aprMON'')) (\<lambda>aprMON.
    let staking = address aprMON in
    bind (approveIfNeeded E account staking amountIn) (\<lambda>_.
    if useSwap then
      bind (call_executeSwap E ''aprMON'' ''MON'' amount 5) (\<lambda>swapResult.
      case swapResult of
        Failure e \<Rightarrow> throw (''Swap failed: '' @ e)
      | Success r \<Rightarrow>
          return \<lparr>unstake_amount = amount, unstake_receivedAmount = Some (toAmount r),
                  unstake_txHash = txHash r, unstake_blockNumber = swap_result.blockNumber r,
                  unstake_from = account, unstake_method = ''swap'',
                  unstake_message = ''Your '' @ amount
                    @ '' aprMON has been converted to approximately '' @ toAmount r
                    @ '' MON using the swap method.''\<rparr>)
    else
      bind (catch (tryWithdraw E account staking amountIn)
                  (\<lambda>unstakeError. tryTransfer E staking amountIn)) (\<lambda>(hash, receipt, method).
      return \<lparr>unstake_amount = amount, unstake_receivedAmount = None, unstake_txHash = hash,
              unstake_blockNumber = receipt.blockNumber receipt, unstake_from = account,
              unstake_method = method,
              unstake_message = ''Your '' @ amount @ '' aprMON has been unstaked using the ''
                @ method @ '' method. Please check your MON balance.''\<rparr>)))))"

definition requestUnstakeAprMON ::
  "'w env \<Rightarrow> string \<Rightarrow> bool \<Rightarrow> 'w \<Rightarrow> unstake_result result \<times> event list \<times> 'w" where
  "requestUnstakeAprMON E amount useSwap = tryCatch (requestUnstakeAprMON_body E amount useSwap)"

section \<open>Direct transfers (\<^verbatim>\<open>index.ts\<close>)\<close>










section \<open>Observations on call logs\<close>

text \<open>What the properties below read off a log of chain calls.\<close>

definition isRead :: "event \<Rightarrow> bool" where
  "isRead ev = (case ev of ReadContract _ _ _ _ \<Rightarrow> True
                         | ReadContractArray _ _ _ _ \<Rightarrow> True | _ \<Rightarrow> False)"


text \<open>
  Every call of a function named \<^verbatim>\<open>approve\<close> and every read of a function named
  \<^verbatim>\<open>allowance\<close>, on whatever contract and with whatever arguments. The two are used
  only to say that a log holds no such call.
\<close>

definition isApprove :: "event \<Rightarrow> bool" where
  "isApprove ev = (case ev of WriteContract _ f _ _ _ \<Rightarrow> f = ''approve'' | _ \<Rightarrow> False)"

definition isAllowanceRead :: "event \<Rightarrow> bool" where
  "isAllowanceRead ev = (case ev of ReadContract _ f _ _ \<Rightarrow> f = ''allowance'' | _ \<Rightarrow> False)"


text \<open>
  The transactions of a log with what became of each: the submission was rejected, the wait
  that follows it threw, the wait returned a receipt, or no wait follows.
\<close>

datatype outcome = Rejected string | WaitFailed string | Mined receipt | NotAwaited

fun attempts :: "event list \<Rightarrow> (string \<times> outcome) list" where
  "attempts [] = []"
| "attempts (WriteContract a f args v (Inl e) # tr) = (f, Rejected e) # attempts tr"
| "attempts (WriteContract a f args v (Inr h) # WaitForTransactionReceipt h' t c (Inl e) # tr) =
     (f, WaitFailed e) # attempts tr"
| "attempts (WriteContract a f args v (Inr h) # WaitForTransactionReceipt h' t c (Inr r) # tr) =
     (f, Mined r) # attempts tr"
| "attempts (WriteContract a f args v (Inr h) # tr) = (f, NotAwaited) # attempts tr"
| "attempts (ev # tr) = attempts tr"

text \<open>The attempts other than approvals: the action of the operation.\<close>

definition actions :: "event list \<Rightarrow> (string \<times> outcome) list" where
  "actions tr = filter (\<lambda>(f, out). f \<noteq> ''approve'') (attempts tr)"

text \<open>
  The end of a log after a submission: the wait for the receipt of the submitted
  transaction when the submission was accepted, nothing when it was rejected.
\<close>

definition awaited :: "'w env \<Rightarrow> string + hash \<Rightarrow> 'w \<Rightarrow> event list" where
  "awaited E sub w = (case sub of
       Inl e \<Rightarrow> []
     | Inr h \<Rightarrow> [WaitForTransactionReceipt h 60000 1
                    (fst (waitForTransactionReceipt E h 60000 1 w))])"

section \<open>Addresses\<close>

text \<open>
  \<^verbatim>\<open>APRIORI_STAKING_ADDRESS = TOKEN_MAP.aprMON.address\<close> of the staking module: the
  staking contract is the aprMON token. \<^verbatim>\<open>wmonAddress = TOKEN_MAP["WMON"].address\<close> of
  \<^verbatim>\<open>wrapUnwrap.ts\<close>.
\<close>

definition APRIORI_STAKING_ADDRESS :: address where
  "APRIORI_STAKING_ADDRESS = ''0xb2f82D0f38dc453D596Ad40A37799446Cc89274A''"

definition wmonAddress :: address where
  "wmonAddress = ''0x760AfE86e5de5fa0Ee542fc7B7B713e1c5425701''"

section \<open>A scripted chain client\<close>

text \<open>
  A test double for the examples: a wallet that derives the expected staking address,
  \<^verbatim>\<open>parseUnits\<close> on the amounts \<^verbatim>\<open>"1"\<close>, \<^verbatim>\<open>"0"\<close> and \<^verbatim>\<open>"1000000000"\<close> (every
  other string is rejected),
  \<^verbatim>\<open>formatUnits\<close> on the two amounts the examples report (a fixed text otherwise), a balance and an allowance of two tokens, a quote
  of 1,000,000 units, and transactions that are accepted and mined successfully. Its world
  state is trivial. The variants below change one answer each.
\<close>

definition minedReceipt :: "string \<Rightarrow> hash \<Rightarrow> receipt" where
  "minedReceipt s h = \<lparr>status = StatusString s, blockNumber = 7, transactionHash = h\<rparr>"

definition mockEnv :: "unit env" where
  "mockEnv = \<lparr>
     TEST_WALLET_PRIVATE_KEY = Some ''0x01'',
     configImports = True,
     privateKeyToAccount = (\<lambda>k. Inr expectedAddress),
     parseUnits = (\<lambda>s d. if s = ''1'' then Inr (10 ^ d) else if s = ''0'' then Inr 0
                          else if s = ''1000000000'' then Inr (1000000000 * 10 ^ d)
                          else Inl ''InvalidDecimalNumberError''),
     formatUnits = (\<lambda>v d. if v = 998800000000000000 \<and> d = 18 then ''0.9988''
                           else if v = 1000000 \<and> d = 6 then ''1'' else ''formatted''),
     getBlock = (\<lambda>w. (Inr 1700000000, w)),
     getBalance = (\<lambda>a w. (Inr (2 * 10 ^ 18), w)),
     readContract = (\<lambda>a f args w. (Inr (2 * 10 ^ 18), w)),
     readContractArray = (\<lambda>a f args w. (Inr [0, 1000000], w)),
     writeContract = (\<lambda>a f args v w. (Inr (''0x'' @ f), w)),
     sendTransaction = (\<lambda>to v w. (Inr ''0xsend'', w)),
     waitForTransactionReceipt = (\<lambda>h t c w. (Inr (minedReceipt ''success'' h), w))\<rparr>"

text \<open>Every transaction is mined with status \<^verbatim>\<open>reverted\<close>.\<close>

definition revertingEnv :: "unit env" where
  "revertingEnv = mockEnv\<lparr>waitForTransactionReceipt :=
     (\<lambda>h t c w. (Inr (minedReceipt ''reverted'' h), w))\<rparr>"

text \<open>The \<^verbatim>\<open>withdraw\<close> call is rejected; with \<open>both\<close>, the \<^verbatim>\<open>transfer\<close> call too.\<close>

definition withdrawFailsEnv :: "bool \<Rightarrow> unit env" where
  "withdrawFailsEnv both = mockEnv\<lparr>writeContract :=
     (\<lambda>a f args v w. if f = ''withdraw'' then (Inl ''withdraw rejected'', w)
                      else if both \<and> f = ''transfer'' then (Inl ''transfer rejected'', w)
                      else (Inr (''0x'' @ f), w))\<rparr>"

text \<open>The key derives another address than the expected one.\<close>

definition otherWalletEnv :: "unit env" where
  "otherWalletEnv = mockEnv\<lparr>privateKeyToAccount :=
     (\<lambda>k. Inr ''0x0000000000000000000000000000000000000001'')\<rparr>"

text \<open>Every balance and every allowance is zero.\<close>

definition emptyWalletEnv :: "unit env" where
  "emptyWalletEnv = mockEnv\<lparr>getBalance := (\<lambda>a w. (Inr 0, w)),
                            readContract := (\<lambda>a f args w. (Inr 0, w))\<rparr>"

text \<open>The router's quote read reverts.\<close>

definition revertingQuoteEnv :: "unit env" where
  "revertingQuoteEnv = mockEnv\<lparr>readContractArray :=
     (\<lambda>a f args w. (Inl ''execution reverted'', w))\<rparr>"

section \<open>Basic facts\<close>

lemmas io_defs = bind_def return_def throw_def ofSum_def tryCatch_def catch_def
  call_getBlock_def call_getBalance_def call_readContract_def call_readContractArray_def
  call_writeContract_def call_sendTransaction_def call_waitForTransactionReceipt_def

text \<open>Deriving the account makes no chain call.\<close>

lemma accountFromEnv_silent:
  "accountFromEnv E m w = (r, tr, w') \<Longrightarrow> tr = [] \<and> w' = w"
  by (auto simp add: accountFromEnv_def io_defs split: option.splits if_splits sum.splits)

lemma accountFromEnv_Inr:
  "accountFromEnv E m w = (Inr a, tr, w') \<Longrightarrow>
     \<exists>k. TEST_WALLET_PRIVATE_KEY E = Some k \<and> k \<noteq> [] \<and>
         privateKeyToAccount E (formatPrivateKey k) = Inr a"
  by (auto simp add: accountFromEnv_def io_defs split: option.splits if_splits sum.splits)

lemma accountFromEnv_eq:
  "TEST_WALLET_PRIVATE_KEY E = Some k \<Longrightarrow> k \<noteq> [] \<Longrightarrow>
     accountFromEnv E m w = (privateKeyToAccount E (formatPrivateKey k), [], w)"
  by (auto simp add: accountFromEnv_def io_defs split: option.splits if_splits sum.splits)

lemma lookup_aprMON:
  "lookupToken ''aprMON'' =
     Inr (token ''Apriori Staked MON'' ''aprMON'' 18 ''0xb2f82D0f38dc453D596Ad40A37799446Cc89274A'')"
  by (simp add: lookupToken_def TOKEN_MAP_def)

lemma lookup_WMON:
  "lookupToken ''WMON'' =
     Inr (token ''Wrapped MON'' ''WMON'' 18 ''0x760AfE86e5de5fa0Ee542fc7B7B713e1c5425701'')"
  by (simp add: lookupToken_def TOKEN_MAP_def)

lemma tokenInfo_aprMON: "tokenInfo ''aprMON'' = lookupToken ''aprMON''"
  by (simp add: tokenInfo_def)

lemma tokenInfo_MON: "tokenInfo ''MON'' = lookupToken ''WMON''"
  by (simp add: tokenInfo_def)

lemma token_sel [simp]:
  "decimals (token n s d a) = d" "address (token n s d a) = a"
  by (simp_all add: token_def)

lemma lower_expectedAddress:
  "toLowerCase expectedAddress = ''0x5b84dc548e45cc4f1498b95c000c748c1c953f64''"
  by code_simp

lemma lower_otherAddress:
  "toLowerCase ''0x0000000000000000000000000000000000000001'' =
     ''0x0000000000000000000000000000000000000001''"
  by code_simp

lemma normalize_aprMON_MON: "normalizeTokens ''aprMON'' ''MON'' = Inr (''aprMON'', ''MON'')"
  by code_simp

lemma normalize_USDC_USDT: "normalizeTokens ''USDC'' ''USDT'' = Inr (''USDC'', ''USDT'')"
  by code_simp

lemma normalize_MON_USDC: "normalizeTokens ''MON'' ''USDC'' = Inr (''MON'', ''USDC'')"
  by code_simp


lemmas run_defs = accountFromEnv_def formatPrivateKey_def startsWith_def io_defs

section \<open>Staking is tied to one wallet\<close>

text \<open>
  Claim C8. \<^verbatim>\<open>stakeMON\<close> compares the address derived from the configured private key
  with the hardcoded address \<^verbatim>\<open>0x5b84Dc548e45cC4f1498b95C000C748c1c953f64\<close>, both in lower
  case, before anything else. When they differ the operation returns the failure result
  with the mismatch message, makes no chain call at all (so submits no transaction) and
  leaves the world as it was; and every success result of \<^verbatim>\<open>stakeMON\<close> carries a sender
  whose lower-case spelling is that of the hardcoded address.
\<close>

theorem stake_only_expected_wallet:
  "(TEST_WALLET_PRIVATE_KEY E = Some k \<and> k \<noteq> [] \<and>
    privateKeyToAccount E (formatPrivateKey k) = Inr a \<and>
    toLowerCase a \<noteq> toLowerCase expectedAddress
    \<longrightarrow> stakeMON E amount w =
          (Failure (''Private key generates different address ('' @ a @ '') than expected (''
                    @ expectedAddress @ ''). Please check your private key in .env file.''),
           [], w))
   \<and> (stakeMON E amount w = (Success r, tr, w')
    \<longrightarrow> toLowerCase (stake_from r) = toLowerCase expectedAddress)"
proof (intro conjI impI)
  assume "TEST_WALLET_PRIVATE_KEY E = Some k \<and> k \<noteq> [] \<and>
    privateKeyToAccount E (formatPrivateKey k) = Inr a \<and>
    toLowerCase a \<noteq> toLowerCase expectedAddress"
  then show "stakeMON E amount w =
          (Failure (''Private key generates different address ('' @ a @ '') than expected (''
                    @ expectedAddress @ ''). Please check your private key in .env file.''),
           [], w)"
    by (simp add: stakeMON_def stakeMON_body_def accountFromEnv_eq io_defs)
next
  assume "stakeMON E amount w = (Success r, tr, w')"
  then show "toLowerCase (stake_from r) = toLowerCase expectedAddress"
    by (auto simp add: stakeMON_def stakeMON_body_def io_defs lookup_aprMON
        split: option.splits if_splits sum.splits prod.splits)
qed

theorem stake_only_expected_wallet_witness:
  "stakeMON otherWalletEnv ''1'' () =
     (Failure (''Private key generates different address (''
               @ ''0x0000000000000000000000000000000000000001'' @ '') than expected (''
               @ expectedAddress @ ''). Please check your private key in .env file.''), [], ())
   \<and> stakeMON mockEnv ''1'' () =
     (Success \<lparr>stake_amount = ''1'', stake_txHash = ''0xdeposit'', stake_blockNumber = 7,
               stake_from = expectedAddress, stake_method = ''deposit''\<rparr>,
      [GetBalance expectedAddress (Inr (2 * 10 ^ 18)),
       WriteContract ''0xb2f82D0f38dc453D596Ad40A37799446Cc89274A'' ''deposit''
         [Uint (10 ^ 18), Addr expectedAddress] (Some (10 ^ 18)) (Inr ''0xdeposit''),
       WaitForTransactionReceipt ''0xdeposit'' 60000 1 (Inr (minedReceipt ''success'' ''0xdeposit''))],
      ())
   \<and> toLowerCase (stake_from \<lparr>stake_amount = ''1'', stake_txHash = ''0xdeposit'',
        stake_blockNumber = 7, stake_from = expectedAddress, stake_method = ''deposit''\<rparr>)
       = toLowerCase expectedAddress"
proof -
  have k: "TEST_WALLET_PRIVATE_KEY otherWalletEnv = Some ''0x01'' \<and> ''0x01'' \<noteq> [] \<and>
    privateKeyToAccount otherWalletEnv (formatPrivateKey ''0x01'')
      = Inr ''0x0000000000000000000000000000000000000001'' \<and>
    toLowerCase ''0x0000000000000000000000000000000000000001'' \<noteq> toLowerCase expectedAddress"
    by (simp add: otherWalletEnv_def mockEnv_def lower_expectedAddress lower_otherAddress)
  have run: "stakeMON mockEnv ''1'' () =
     (Success \<lparr>stake_amount = ''1'', stake_txHash = ''0xdeposit'', stake_blockNumber = 7,
               stake_from = expectedAddress, stake_method = ''deposit''\<rparr>,
      [GetBalance expectedAddress (Inr (2 * 10 ^ 18)),
       WriteContract ''0xb2f82D0f38dc453D596Ad40A37799446Cc89274A'' ''deposit''
         [Uint (10 ^ 18), Addr expectedAddress] (Some (10 ^ 18)) (Inr ''0xdeposit''),
       WaitForTransactionReceipt ''0xdeposit'' 60000 1 (Inr (minedReceipt ''success'' ''0xdeposit''))],
      ())"
    by (simp add: stakeMON_def stakeMON_body_def mockEnv_def run_defs lookup_aprMON
        minedReceipt_def)
  from k run
    stake_only_expected_wallet [of otherWalletEnv "''0x01''"
      "''0x0000000000000000000000000000000000000001''" "''1''" "()"]
    stake_only_expected_wallet [of mockEnv _ _ "''1''" "()" _ _ "()"]
  show ?thesis by blast
qed

section \<open>Direct transfers report confirmation without waiting\<close>








section \<open>The reported output of the aprMON to MON swap\<close>

lemma swapSpecial_result:
  assumes "swapSpecial E account src dst amount amountIn deadline s w = (Inr r, tr, w')"
  shows "toAmount r = formatUnits E (bigintDiv (amountIn * 9988) 10000) 18
         \<and> filter isRead tr = []"
  using assms
  by (auto simp add: swapSpecial_def io_defs lookup_aprMON isRead_def
      split: option.splits if_splits sum.splits prod.splits)

text \<open>
  Claim C9. When the normalised pair is aprMON to MON, the \<^verbatim>\<open>toAmount\<close> of every success
  result of \<^verbatim>\<open>executeSwap\<close> is \<^verbatim>\<open>formatUnits(amountIn * 9988n / 10000n, 18)\<close>, where
  \<^verbatim>\<open>amountIn\<close> is the parsed input amount: a value fixed by the input alone. The run makes
  no contract read (no quote), and no answer of the chain enters the reported amount.
\<close>

theorem special_pair_output_is_local:
  assumes "normalizeTokens fromTok toTok = Inr (''aprMON'', ''MON'')"
      and "parseUnits E amount 18 = Inr amountIn"
      and "executeSwap E fromTok toTok amount slippagePercent w = (Success r, tr, w')"
  shows "toAmount r = formatUnits E (bigintDiv (amountIn * 9988) 10000) 18 \<and>
         filter isRead tr = []"
  using assms
  by (auto simp add: executeSwap_def executeSwap_body_def tokenInfo_aprMON tokenInfo_MON
        lookup_aprMON lookup_WMON io_defs isRead_def
      dest!: swapSpecial_result accountFromEnv_silent
      split: option.splits if_splits sum.splits prod.splits)

lemmas swap_eval = executeSwap_def executeSwap_body_def run_defs
  tokenInfo_aprMON tokenInfo_MON lookup_aprMON lookup_WMON swapSpecial_def slippageFactor_def
  BigInt_def amountOutMin_def bigintDiv_def signed_divide_int_def minedReceipt_def

lemma special_run:
  "executeSwap mockEnv ''aprMON'' ''MON'' ''1'' 5 () =
     (Success \<lparr>fromToken = ''aprMON'', toToken = ''MON'', fromAmount = ''1'',
               toAmount = ''0.9988'', txHash = ''0xswapExactTokensForETH'',
               blockNumber = 7, sender = expectedAddress\<rparr>,
      [GetBlock (Inr 1700000000),
       WriteContract ''0xb2f82D0f38dc453D596Ad40A37799446Cc89274A'' ''approve''
         [Addr SWAP_ROUTER_ADDRESS, Uint (10 ^ 18)] None (Inr ''0xapprove''),
       WaitForTransactionReceipt ''0xapprove'' 60000 1
         (Inr (minedReceipt ''success'' ''0xapprove'')),
       WriteContract SWAP_ROUTER_ADDRESS ''swapExactTokensForETH''
         [Uint (10 ^ 18), Uint 948860000000000000, AddrArray specialPath,
          Addr expectedAddress, Uint 1700001200] None (Inr ''0xswapExactTokensForETH''),
       WaitForTransactionReceipt ''0xswapExactTokensForETH'' 60000 1
         (Inr (minedReceipt ''success'' ''0xswapExactTokensForETH''))],
      ())"
  by (simp add: mockEnv_def swap_eval normalize_aprMON_MON)

theorem special_pair_output_is_local_witness:
  "normalizeTokens ''aprMON'' ''MON'' = Inr (''aprMON'', ''MON'') \<and>
   parseUnits mockEnv ''1'' 18 = Inr (10 ^ 18) \<and>
   fst (executeSwap mockEnv ''aprMON'' ''MON'' ''1'' 5 ()) =
     Success \<lparr>fromToken = ''aprMON'', toToken = ''MON'', fromAmount = ''1'',
              toAmount = ''0.9988'', txHash = ''0xswapExactTokensForETH'',
              blockNumber = 7, sender = expectedAddress\<rparr> \<and>
   ''0.9988'' = formatUnits mockEnv (bigintDiv (10 ^ 18 * 9988) 10000) 18 \<and>
   filter isRead (fst (snd (executeSwap mockEnv ''aprMON'' ''MON'' ''1'' 5 ()))) = []"
proof -
  have p: "parseUnits mockEnv ''1'' 18 = Inr (10 ^ 18)"
    by (simp add: mockEnv_def)
  from special_pair_output_is_local [OF normalize_aprMON_MON p special_run]
  show ?thesis
    using normalize_aprMON_MON p by (simp add: special_run)
qed

section \<open>Reverted receipts\<close>

text \<open>
  Claim C3, at a failing input. Every transaction is mined with status \<^verbatim>\<open>reverted\<close>.
  The aprMON to MON swap returns a success result although its one action, the call of
  \<^verbatim>\<open>swapExactTokensForETH\<close>, was mined as reverted; and the unstake request with the swap
  flag unset returns a success result with method \<^verbatim>\<open>withdraw\<close> although the
  \<^verbatim>\<open>withdraw\<close> call was mined as reverted. Neither path looks at the receipt's status.
\<close>

theorem special_swap_succeeds_on_revert:
  "fst (executeSwap revertingEnv ''aprMON'' ''MON'' ''1'' 5 ()) =
     Success \<lparr>fromToken = ''aprMON'', toToken = ''MON'', fromAmount = ''1'',
              toAmount = ''0.9988'', txHash = ''0xswapExactTokensForETH'',
              blockNumber = 7, sender = expectedAddress\<rparr>
   \<and> actions (fst (snd (executeSwap revertingEnv ''aprMON'' ''MON'' ''1'' 5 ()))) =
     [(''swapExactTokensForETH'', Mined (minedReceipt ''reverted'' ''0xswapExactTokensForETH''))]
   \<and> fst (requestUnstakeAprMON revertingEnv ''1'' False ()) =
     Success \<lparr>unstake_amount = ''1'', unstake_receivedAmount = None,
              unstake_txHash = ''0xwithdraw'', unstake_blockNumber = 7,
              unstake_from = expectedAddress, unstake_method = ''withdraw'',
              unstake_message = ''Your 1 aprMON has been unstaked using the withdraw method. Please check your MON balance.''\<rparr>
   \<and> actions (fst (snd (requestUnstakeAprMON revertingEnv ''1'' False ()))) =
     [(''withdraw'', Mined (minedReceipt ''reverted'' ''0xwithdraw''))]"
  by (simp add: revertingEnv_def mockEnv_def swap_eval normalize_aprMON_MON actions_def
       requestUnstakeAprMON_def requestUnstakeAprMON_body_def approveIfNeeded_def
       tryWithdraw_def tryTransfer_def Let_def)
section \<open>The steps of the operations\<close>

text \<open>
  Each lemma of this section follows one operation through one sequence of answers of the
  chain client, and gives the calls it makes, in order and with their arguments.
\<close>

lemma lookup_staking:
  "lookupToken ''aprMON'' =
     Inr (token ''Apriori Staked MON'' ''aprMON'' 18 APRIORI_STAKING_ADDRESS)"
  by (simp add: lookup_aprMON APRIORI_STAKING_ADDRESS_def)

lemma lookup_wmon:
  "lookupToken ''WMON'' = Inr (token ''Wrapped MON'' ''WMON'' 18 wmonAddress)"
  by (simp add: lookup_WMON wmonAddress_def)

lemmas wrap_sym = wrapMON_def wrapMON_body_def unwrapWMON_def unwrapWMON_body_def
  getWalletClient_def importedToken_def lookup_wmon accountFromEnv_eq io_defs
  stakeMON_def stakeMON_body_def lookup_staking

lemmas unstake_sym = requestUnstakeAprMON_def requestUnstakeAprMON_body_def approveIfNeeded_def
  tryWithdraw_def tryTransfer_def Let_def accountFromEnv_eq io_defs lookup_staking

lemma slippageFactor_bps:
  assumes "slippagePercent * 10 = of_int slippageBps"
  shows "slippageFactor slippagePercent = Inr (1000 - slippageBps)"
  using assms by (simp add: slippageFactor_def BigInt_def)

lemma bigintDiv_floor:
  assumes "0 \<le> a" "0 < b"
  shows "bigintDiv a b = a div b"
  using assms by (simp add: bigintDiv_def signed_divide_int_def sgn_if)

subsection \<open>The unstake request\<close>

lemma strategies_head:
  assumes "writeContract E staking ''withdraw'' [Uint amountIn, Addr account, Addr account] None w
             = (sub, w')"
  shows "\<exists>r rest w''. catch (tryWithdraw E account staking amountIn)
            (\<lambda>unstakeError. tryTransfer E staking amountIn) w =
          (r, WriteContract staking ''withdraw'' [Uint amountIn, Addr account, Addr account] None sub
              # rest, w'')"
  using assms
  by (auto simp add: tryWithdraw_def tryTransfer_def io_defs split: sum.splits prod.splits)

lemma unstake_log_direct:
  assumes "approveIfNeeded E account APRIORI_STAKING_ADDRESS amountIn w = (Inr u, tr0, w0)"
      and "TEST_WALLET_PRIVATE_KEY E = Some k" "k \<noteq> []"
      and "privateKeyToAccount E (formatPrivateKey k) = Inr account"
      and "parseUnits E amount 18 = Inr amountIn"
      and "catch (tryWithdraw E account APRIORI_STAKING_ADDRESS amountIn)
            (\<lambda>unstakeError. tryTransfer E APRIORI_STAKING_ADDRESS amountIn) w0 = (r, tr1, w1)"
  shows "fst (snd (requestUnstakeAprMON E amount False w)) = tr0 @ tr1"
  using assms
  by (simp add: requestUnstakeAprMON_def requestUnstakeAprMON_body_def Let_def
        accountFromEnv_eq lookup_staking bind_def return_def throw_def ofSum_def tryCatch_def
      split: sum.splits prod.splits)

lemma unstake_log_swap:
  assumes "approveIfNeeded E account APRIORI_STAKING_ADDRESS amountIn w = (Inr u, tr0, w0)"
      and "TEST_WALLET_PRIVATE_KEY E = Some k" "k \<noteq> []"
      and "privateKeyToAccount E (formatPrivateKey k) = Inr account"
      and "parseUnits E amount 18 = Inr amountIn"
  shows "fst (snd (requestUnstakeAprMON E amount True w)) =
           tr0 @ fst (snd (executeSwap E ''aprMON'' ''MON'' amount 5 w0))"
  using assms
  by (simp add: requestUnstakeAprMON_def requestUnstakeAprMON_body_def Let_def
        accountFromEnv_eq lookup_staking bind_def return_def throw_def ofSum_def tryCatch_def
        call_executeSwap_def
      split: sum.splits prod.splits result.splits)

lemma unstake_fails_in_approval:
  assumes "approveIfNeeded E account APRIORI_STAKING_ADDRESS amountIn w = (Inl e, tr0, w0)"
      and "TEST_WALLET_PRIVATE_KEY E = Some k" "k \<noteq> []"
      and "privateKeyToAccount E (formatPrivateKey k) = Inr account"
      and "parseUnits E amount 18 = Inr amountIn"
  shows "requestUnstakeAprMON E amount useSwap w = (Failure e, tr0, w0)"
  using assms
  by (simp add: requestUnstakeAprMON_def requestUnstakeAprMON_body_def Let_def
        accountFromEnv_eq lookup_staking bind_def return_def throw_def ofSum_def tryCatch_def)

lemmas approve_sym = approveIfNeeded_def io_defs

lemma approval_read_fails:
  assumes "readContract E staking ''allowance'' [Addr account, Addr staking] w = (Inl e, wa)"
  shows "approveIfNeeded E account staking amountIn w =
           (Inl e, [ReadContract staking ''allowance'' [Addr account, Addr staking] (Inl e)], wa)"
  using assms by (simp add: approve_sym)

lemma approval_not_needed:
  assumes "readContract E staking ''allowance'' [Addr account, Addr staking] w = (Inr al, wa)"
      and "amountIn \<le> al"
  shows "approveIfNeeded E account staking amountIn w =
           (Inr (), [ReadContract staking ''allowance'' [Addr account, Addr staking] (Inr al)], wa)"
  using assms by (simp add: approve_sym)

lemma approval_rejected:
  assumes "readContract E staking ''allowance'' [Addr account, Addr staking] w = (Inr al, wa)"
      and "al < amountIn" "parseUnits E ''1000000000'' 18 = Inr cap"
      and "writeContract E staking ''approve'' [Addr staking, Uint cap] None wa = (Inl e, wb)"
  shows "approveIfNeeded E account staking amountIn w =
           (Inl e, [ReadContract staking ''allowance'' [Addr account, Addr staking] (Inr al),
                    WriteContract staking ''approve'' [Addr staking, Uint cap] None (Inl e)], wb)"
  using assms by (simp add: approve_sym)

lemma approval_unconfirmed:
  assumes "readContract E staking ''allowance'' [Addr account, Addr staking] w = (Inr al, wa)"
      and "al < amountIn" "parseUnits E ''1000000000'' 18 = Inr cap"
      and "writeContract E staking ''approve'' [Addr staking, Uint cap] None wa = (Inr ah, wb)"
      and "waitForTransactionReceipt E ah 60000 1 wb = (Inl e, wc)"
  shows "approveIfNeeded E account staking amountIn w =
           (Inl e, [ReadContract staking ''allowance'' [Addr account, Addr staking] (Inr al),
                    WriteContract staking ''approve'' [Addr staking, Uint cap] None (Inr ah),
                    WaitForTransactionReceipt ah 60000 1 (Inl e)], wc)"
  using assms by (simp add: approve_sym)

lemma approval_confirmed:
  assumes "readContract E staking ''allowance'' [Addr account, Addr staking] w = (Inr al, wa)"
      and "al < amountIn" "parseUnits E ''1000000000'' 18 = Inr cap"
      and "writeContract E staking ''approve'' [Addr staking, Uint cap] None wa = (Inr ah, wb)"
      and "waitForTransactionReceipt E ah 60000 1 wb = (Inr rc, wc)"
  shows "approveIfNeeded E account staking amountIn w =
           (Inr (), [ReadContract staking ''allowance'' [Addr account, Addr staking] (Inr al),
                    WriteContract staking ''approve'' [Addr staking, Uint cap] None (Inr ah),
                    WaitForTransactionReceipt ah 60000 1 (Inr rc)], wc)"
  using assms by (simp add: approve_sym)

lemma unstake_direct_after:
  assumes ap: "approveIfNeeded E account APRIORI_STAKING_ADDRESS amountIn w = (Inr u, tr0, w0)"
      and key: "TEST_WALLET_PRIVATE_KEY E = Some k" "k \<noteq> []"
      and acct: "privateKeyToAccount E (formatPrivateKey k) = Inr account"
      and amt: "parseUnits E amount 18 = Inr amountIn"
      and sub: "writeContract E APRIORI_STAKING_ADDRESS ''withdraw''
                  [Uint amountIn, Addr account, Addr account] None w0 = (sub, w1)"
      and n: "n = Suc (length tr0)"
  shows "take n (fst (snd (requestUnstakeAprMON E amount False w))) =
           tr0 @ [WriteContract APRIORI_STAKING_ADDRESS ''withdraw''
                    [Uint amountIn, Addr account, Addr account] None sub]"
proof -
  from strategies_head [OF sub] obtain r rest w'' where
    c: "catch (tryWithdraw E account APRIORI_STAKING_ADDRESS amountIn)
          (\<lambda>unstakeError. tryTransfer E APRIORI_STAKING_ADDRESS amountIn) w0 =
        (r, WriteContract APRIORI_STAKING_ADDRESS ''withdraw''
              [Uint amountIn, Addr account, Addr account] None sub # rest, w'')"
    by blast
  from unstake_log_direct [OF ap key acct amt c] n show ?thesis by simp
qed

subsection \<open>Swaps\<close>

lemma executeSwap_log:
  assumes "TEST_WALLET_PRIVATE_KEY E = Some k" "k \<noteq> []"
      and "privateKeyToAccount E (formatPrivateKey k) = Inr account"
      and "normalizeTokens fromTok toTok = Inr (src, dst)"
      and "tokenInfo src = Inr si" "tokenInfo dst = Inr di"
      and "parseUnits E amount (decimals si) = Inr amountIn"
      and "getBlock E w = (Inr ts, w1)"
  shows "executeSwap E fromTok toTok amount s w =
           (case (if src = ''aprMON'' \<and> dst = ''MON''
                  then swapSpecial E account src dst amount amountIn (ts + 1200) s
                  else swapDefault E account src dst si di amount amountIn (ts + 1200) s) w1 of
              (Inl e, tr, w') \<Rightarrow> (Failure e, GetBlock (Inr ts) # tr, w')
            | (Inr r, tr, w') \<Rightarrow> (Success r, GetBlock (Inr ts) # tr, w'))"
  using assms
  by (simp add: executeSwap_def executeSwap_body_def accountFromEnv_eq Let_def
        bind_def return_def throw_def ofSum_def tryCatch_def call_getBlock_def
      split: sum.splits prod.splits)

lemma special_approve_rejected:
  assumes "writeContract E APRIORI_STAKING_ADDRESS ''approve''
             [Addr SWAP_ROUTER_ADDRESS, Uint amountIn] None w = (Inl e, w')"
  shows "swapSpecial E account src dst amount amountIn deadline s w =
           (Inl e, [WriteContract APRIORI_STAKING_ADDRESS ''approve''
                      [Addr SWAP_ROUTER_ADDRESS, Uint amountIn] None (Inl e)], w')"
  using assms by (simp add: swapSpecial_def lookup_staking io_defs)

lemma special_approve_unconfirmed:
  assumes "writeContract E APRIORI_STAKING_ADDRESS ''approve''
             [Addr SWAP_ROUTER_ADDRESS, Uint amountIn] None w = (Inr ah, w')"
      and "waitForTransactionReceipt E ah 60000 1 w' = (Inl e, w'')"
  shows "swapSpecial E account src dst amount amountIn deadline s w =
           (Inl e, [WriteContract APRIORI_STAKING_ADDRESS ''approve''
                      [Addr SWAP_ROUTER_ADDRESS, Uint amountIn] None (Inr ah),
                    WaitForTransactionReceipt ah 60000 1 (Inl e)], w'')"
  using assms by (simp add: swapSpecial_def lookup_staking io_defs)

lemma special_swap_submitted:
  assumes "writeContract E APRIORI_STAKING_ADDRESS ''approve''
             [Addr SWAP_ROUTER_ADDRESS, Uint amountIn] None w = (Inr ah, w')"
      and "waitForTransactionReceipt E ah 60000 1 w' = (Inr rc, w'')"
      and "slippageFactor s = Inr factor"
      and "writeContract E SWAP_ROUTER_ADDRESS ''swapExactTokensForETH''
             [Uint amountIn, Uint (bigintDiv (bigintDiv (amountIn * 9988) 10000 * factor) 1000),
              AddrArray specialPath, Addr account, Uint deadline] None w'' = (sub, w3)"
  shows "fst (snd (swapSpecial E account src dst amount amountIn deadline s w)) =
           [WriteContract APRIORI_STAKING_ADDRESS ''approve''
              [Addr SWAP_ROUTER_ADDRESS, Uint amountIn] None (Inr ah),
            WaitForTransactionReceipt ah 60000 1 (Inr rc),
            WriteContract SWAP_ROUTER_ADDRESS ''swapExactTokensForETH''
              [Uint amountIn, Uint (bigintDiv (bigintDiv (amountIn * 9988) 10000 * factor) 1000),
               AddrArray specialPath, Addr account, Uint deadline] None sub]
           @ awaited E sub w3"
  using assms
  by (auto simp add: swapSpecial_def lookup_staking io_defs amountOutMin_def awaited_def Let_def
      split: sum.splits prod.splits)

lemma default_native_submitted:
  assumes "readContractArray E SWAP_ROUTER_ADDRESS ''getAmountsOut''
             [Uint amountIn, AddrArray [address si, address di]] w = (Inr amounts, w')"
      and "second amounts = Some expectedOutput"
      and "slippageFactor s = Inr factor"
      and "writeContract E SWAP_ROUTER_ADDRESS ''swapExactETHForTokens''
             [Uint (bigintDiv (expectedOutput * factor) 1000),
              AddrArray [address si, address di], Addr account, Uint deadline]
             (Some amountIn) w' = (sub, w'')"
  shows "fst (snd (swapDefault E account ''MON'' dst si di amount amountIn deadline s w)) =
           [ReadContractArray SWAP_ROUTER_ADDRESS ''getAmountsOut''
              [Uint amountIn, AddrArray [address si, address di]] (Inr amounts),
            WriteContract SWAP_ROUTER_ADDRESS ''swapExactETHForTokens''
              [Uint (bigintDiv (expectedOutput * factor) 1000),
               AddrArray [address si, address di], Addr account, Uint deadline]
              (Some amountIn) sub]
           @ awaited E sub w''"
  using assms
  by (auto simp add: swapDefault_def submitSwap_def io_defs amountOutMin_def awaited_def Let_def
      split: sum.splits prod.splits)

lemma default_approve_rejected:
  assumes "src \<noteq> ''MON''"
      and "readContractArray E SWAP_ROUTER_ADDRESS ''getAmountsOut''
             [Uint amountIn, AddrArray [address si, address di]] w = (Inr amounts, w')"
      and "second amounts = Some expectedOutput"
      and "slippageFactor s = Inr factor"
      and "writeContract E (address si) ''approve''
             [Addr SWAP_ROUTER_ADDRESS, Uint amountIn] None w' = (Inl e, w'')"
  shows "swapDefault E account src dst si di amount amountIn deadline s w =
           (Inl e,
            [ReadContractArray SWAP_ROUTER_ADDRESS ''getAmountsOut''
               [Uint amountIn, AddrArray [address si, address di]] (Inr amounts),
             WriteContract (address si) ''approve''
               [Addr SWAP_ROUTER_ADDRESS, Uint amountIn] None (Inl e)], w'')"
  using assms
  by (simp add: swapDefault_def submitSwap_def approveRouter_def io_defs amountOutMin_def Let_def)

lemma default_approve_unconfirmed:
  assumes "src \<noteq> ''MON''"
      and "readContractArray E SWAP_ROUTER_ADDRESS ''getAmountsOut''
             [Uint amountIn, AddrArray [address si, address di]] w = (Inr amounts, w')"
      and "second amounts = Some expectedOutput"
      and "slippageFactor s = Inr factor"
      and "writeContract E (address si) ''approve''
             [Addr SWAP_ROUTER_ADDRESS, Uint amountIn] None w' = (Inr ah, w'')"
      and "waitForTransactionReceipt E ah 60000 1 w'' = (Inl e, w3)"
  shows "swapDefault E account src dst si di amount amountIn deadline s w =
           (Inl e,
            [ReadContractArray SWAP_ROUTER_ADDRESS ''getAmountsOut''
               [Uint amountIn, AddrArray [address si, address di]] (Inr amounts),
             WriteContract (address si) ''approve''
               [Addr SWAP_ROUTER_ADDRESS, Uint amountIn] None (Inr ah),
             WaitForTransactionReceipt ah 60000 1 (Inl e)], w3)"
  using assms
  by (simp add: swapDefault_def submitSwap_def approveRouter_def io_defs amountOutMin_def Let_def)

lemma default_token_submitted:
  assumes "src \<noteq> ''MON''"
      and "readContractArray E SWAP_ROUTER_ADDRESS ''getAmountsOut''
             [Uint amountIn, AddrArray [address si, address di]] w = (Inr amounts, w')"
      and "second amounts = Some expectedOutput"
      and "slippageFactor s = Inr factor"
      and "writeContract E (address si) ''approve''
             [Addr SWAP_ROUTER_ADDRESS, Uint amountIn] None w' = (Inr ah, w'')"
      and "waitForTransactionReceipt E ah 60000 1 w'' = (Inr rc, w3)"
      and "writeContract E SWAP_ROUTER_ADDRESS
             (if dst = ''MON'' then ''swapExactTokensForETH'' else ''swapExactTokensForTokens'')
             [Uint amountIn, Uint (bigintDiv (expectedOutput * factor) 1000),
              AddrArray [address si, address di], Addr account, Uint deadline] None w3
             = (sub, w4)"
  shows "fst (snd (swapDefault E account src dst si di amount amountIn deadline s w)) =
           [ReadContractArray SWAP_ROUTER_ADDRESS ''getAmountsOut''
              [Uint amountIn, AddrArray [address si, address di]] (Inr amounts),
            WriteContract (address si) ''approve''
              [Addr SWAP_ROUTER_ADDRESS, Uint amountIn] None (Inr ah),
            WaitForTransactionReceipt ah 60000 1 (Inr rc),
            WriteContract SWAP_ROUTER_ADDRESS
              (if dst = ''MON'' then ''swapExactTokensForETH'' else ''swapExactTokensForTokens'')
              [Uint amountIn, Uint (bigintDiv (expectedOutput * factor) 1000),
               AddrArray [address si, address di], Addr account, Uint deadline] None sub]
           @ awaited E sub w4"
  using assms
  by (auto simp add: swapDefault_def submitSwap_def approveRouter_def io_defs amountOutMin_def
        awaited_def Let_def
      split: sum.splits prod.splits if_splits)

lemma swapSpecial_reads_no_allowance:
  assumes "swapSpecial E account src dst amount amountIn deadline s w = (r, tr, w')"
  shows "filter isAllowanceRead tr = []"
  using assms
  by (auto simp add: swapSpecial_def io_defs lookup_staking isAllowanceRead_def
      split: sum.splits prod.splits)

lemma swapDefault_reads_no_allowance:
  assumes "swapDefault E account src dst si di amount amountIn deadline s w = (r, tr, w')"
  shows "filter isAllowanceRead tr = [] \<and> (src = ''MON'' \<longrightarrow> filter isApprove tr = [])"
  using assms
  by (auto simp add: swapDefault_def submitSwap_def approveRouter_def io_defs Let_def
        isAllowanceRead_def isApprove_def
      split: option.splits sum.splits prod.splits if_splits)

lemma executeSwap_reads_no_allowance:
  "filter isAllowanceRead (fst (snd (executeSwap E fromTok toTok amount s w))) = [] \<and>
   (normalizeTokens fromTok toTok = Inr (''MON'', dst) \<longrightarrow>
      filter isApprove (fst (snd (executeSwap E fromTok toTok amount s w))) = [])"
proof -
  obtain res tr w' where run: "executeSwap E fromTok toTok amount s w = (res, tr, w')"
    by (rule prod_cases3)
  from run have "filter isAllowanceRead tr = [] \<and>
   (normalizeTokens fromTok toTok = Inr (''MON'', dst) \<longrightarrow> filter isApprove tr = [])"
    by (auto simp add: executeSwap_def executeSwap_body_def io_defs isAllowanceRead_def
          isApprove_def Let_def
        dest!: accountFromEnv_silent swapSpecial_reads_no_allowance swapDefault_reads_no_allowance
        split: option.splits if_splits sum.splits prod.splits)
  with run show ?thesis by simp
qed
section \<open>Runs against the scripted client\<close>

lemmas unstake_eval = requestUnstakeAprMON_def requestUnstakeAprMON_body_def approveIfNeeded_def
  tryWithdraw_def tryTransfer_def Let_def run_defs lookup_staking minedReceipt_def

lemmas wrap_eval = wrapMON_def wrapMON_body_def unwrapWMON_def unwrapWMON_body_def
  getWalletClient_def importedToken_def lookup_wmon run_defs minedReceipt_def
  stakeMON_def stakeMON_body_def lookup_staking wrapStatusFails_def

lemmas swap_default_eval = swap_eval swapDefault_def submitSwap_def approveRouter_def second_def
  swapStatusFails_def tokenInfo_def lookupToken_def TOKEN_MAP_def token_def Let_def

lemma mock_key:
  "TEST_WALLET_PRIVATE_KEY mockEnv = Some ''0x01''"
  "''0x01'' \<noteq> ([] :: string)"
  "privateKeyToAccount mockEnv (formatPrivateKey ''0x01'') = Inr expectedAddress"
  by (simp_all add: mockEnv_def)

lemma empty_wallet_key:
  "TEST_WALLET_PRIVATE_KEY emptyWalletEnv = Some ''0x01''"
  "privateKeyToAccount emptyWalletEnv (formatPrivateKey ''0x01'') = Inr expectedAddress"
  by (simp_all add: emptyWalletEnv_def mockEnv_def)

lemma withdraw_fails_key:
  "TEST_WALLET_PRIVATE_KEY (withdrawFailsEnv both) = Some ''0x01''"
  "privateKeyToAccount (withdrawFailsEnv both) (formatPrivateKey ''0x01'') = Inr expectedAddress"
  by (simp_all add: withdrawFailsEnv_def mockEnv_def)

lemma tokenInfo_USDC:
  "tokenInfo ''USDC'' =
     Inr (token ''USD Coin'' ''USDC'' 6 ''0xf817257fed379853cDe0fa4F97AB987181B1E5Ea'')"
  by (simp add: tokenInfo_def lookupToken_def TOKEN_MAP_def)

lemma tokenInfo_USDT:
  "tokenInfo ''USDT'' =
     Inr (token ''Tether USD'' ''USDT'' 6 ''0x88b8E2161DEDC77EF4ab7585569D2415a1C1055D'')"
  by (simp add: tokenInfo_def lookupToken_def TOKEN_MAP_def)

lemma token_swap_run:
  "executeSwap mockEnv ''USDC'' ''USDT'' ''1'' 2 () =
    (Success \<lparr>fromToken = ''USDC'', toToken = ''USDT'', fromAmount = ''1'',
              toAmount = ''1'', txHash = ''0xswapExactTokensForTokens'',
              blockNumber = 7, sender = expectedAddress\<rparr>,
     [GetBlock (Inr 1700000000),
      ReadContractArray SWAP_ROUTER_ADDRESS ''getAmountsOut''
        [Uint (10 ^ 6), AddrArray [''0xf817257fed379853cDe0fa4F97AB987181B1E5Ea'',
                                   ''0x88b8E2161DEDC77EF4ab7585569D2415a1C1055D'']]
        (Inr [0, 1000000]),
      WriteContract ''0xf817257fed379853cDe0fa4F97AB987181B1E5Ea'' ''approve''
        [Addr SWAP_ROUTER_ADDRESS, Uint (10 ^ 6)] None (Inr ''0xapprove''),
      WaitForTransactionReceipt ''0xapprove'' 60000 1
        (Inr (minedReceipt ''success'' ''0xapprove'')),
      WriteContract SWAP_ROUTER_ADDRESS ''swapExactTokensForTokens''
        [Uint (10 ^ 6), Uint 980000,
         AddrArray [''0xf817257fed379853cDe0fa4F97AB987181B1E5Ea'',
                    ''0x88b8E2161DEDC77EF4ab7585569D2415a1C1055D''],
         Addr expectedAddress, Uint 1700001200] None (Inr ''0xswapExactTokensForTokens''),
      WaitForTransactionReceipt ''0xswapExactTokensForTokens'' 60000 1
        (Inr (minedReceipt ''success'' ''0xswapExactTokensForTokens''))], ())"
  by (simp add: mockEnv_def swap_default_eval normalize_USDC_USDT)

section \<open>The minimum-output floor\<close>



lemma executeSwap_special:
  assumes "TEST_WALLET_PRIVATE_KEY E = Some k"
      and "k \<noteq> []"
      and "privateKeyToAccount E (formatPrivateKey k) = Inr account"
      and "normalizeTokens fromTok toTok = Inr (src, dst)"
      and "tokenInfo src = Inr si"
      and "tokenInfo dst = Inr di"
      and "parseUnits E swapAmount (decimals si) = Inr sourceAmount"
      and "getBlock E ws = (Inr timestamp, w1)"
      and "src = ''aprMON''"
      and "dst = ''MON''"
  shows "executeSwap E fromTok toTok swapAmount slippagePercent ws =
           (case swapSpecial E account src dst swapAmount sourceAmount (timestamp + 1200) slippagePercent w1 of
              (Inl e, tr, w') \<Rightarrow> (Failure e, GetBlock (Inr timestamp) # tr, w')
            | (Inr r, tr, w') \<Rightarrow> (Success r, GetBlock (Inr timestamp) # tr, w'))"
  using executeSwap_log [OF assms(1-8), of slippagePercent] assms(9,10) by (simp only: simp_thms if_True)

lemma executeSwap_default:
  assumes "TEST_WALLET_PRIVATE_KEY E = Some k"
      and "k \<noteq> []"
      and "privateKeyToAccount E (formatPrivateKey k) = Inr account"
      and "normalizeTokens fromTok toTok = Inr (src, dst)"
      and "tokenInfo src = Inr si"
      and "tokenInfo dst = Inr di"
      and "parseUnits E swapAmount (decimals si) = Inr sourceAmount"
      and "getBlock E ws = (Inr timestamp, w1)"
      and "\<not> (src = ''aprMON'' \<and> dst = ''MON'')"
  shows "executeSwap E fromTok toTok swapAmount slippagePercent ws =
           (case swapDefault E account src dst si di swapAmount sourceAmount (timestamp + 1200)
                 slippagePercent w1 of
              (Inl e, tr, w') \<Rightarrow> (Failure e, GetBlock (Inr timestamp) # tr, w')
            | (Inr r, tr, w') \<Rightarrow> (Success r, GetBlock (Inr timestamp) # tr, w'))"
  using executeSwap_log [OF assms(1-8), of slippagePercent] assms(9) by (simp only: if_False)

lemma executeSwap_special_fails:
  assumes "TEST_WALLET_PRIVATE_KEY E = Some k"
      and "k \<noteq> []"
      and "privateKeyToAccount E (formatPrivateKey k) = Inr account"
      and "normalizeTokens fromTok toTok = Inr (src, dst)"
      and "tokenInfo src = Inr si"
      and "tokenInfo dst = Inr di"
      and "parseUnits E swapAmount (decimals si) = Inr sourceAmount"
      and "getBlock E ws = (Inr timestamp, w1)"
      and "src = ''aprMON''"
      and "dst = ''MON''"
      and "swapSpecial E account src dst swapAmount sourceAmount (timestamp + 1200) slippagePercent w1
             = (Inl e, tr, w')"
  shows "executeSwap E fromTok toTok swapAmount slippagePercent ws =
           (Failure e, GetBlock (Inr timestamp) # tr, w')"
  unfolding executeSwap_special [OF assms(1-10)] assms(11) by simp

lemma executeSwap_special_log:
  assumes "TEST_WALLET_PRIVATE_KEY E = Some k"
      and "k \<noteq> []"
      and "privateKeyToAccount E (formatPrivateKey k) = Inr account"
      and "normalizeTokens fromTok toTok = Inr (src, dst)"
      and "tokenInfo src = Inr si"
      and "tokenInfo dst = Inr di"
      and "parseUnits E swapAmount (decimals si) = Inr sourceAmount"
      and "getBlock E ws = (Inr timestamp, w1)"
      and "src = ''aprMON''"
      and "dst = ''MON''"
  shows "fst (snd (executeSwap E fromTok toTok swapAmount slippagePercent ws)) =
           GetBlock (Inr timestamp)
           # fst (snd (swapSpecial E account src dst swapAmount sourceAmount (timestamp + 1200) slippagePercent w1))"
  unfolding executeSwap_special [OF assms(1-10)] by (simp split: sum.splits prod.splits)

lemma executeSwap_default_fails:
  assumes "TEST_WALLET_PRIVATE_KEY E = Some k"
      and "k \<noteq> []"
      and "privateKeyToAccount E (formatPrivateKey k) = Inr account"
      and "normalizeTokens fromTok toTok = Inr (src, dst)"
      and "tokenInfo src = Inr si"
      and "tokenInfo dst = Inr di"
      and "parseUnits E swapAmount (decimals si) = Inr sourceAmount"
      and "getBlock E ws = (Inr timestamp, w1)"
      and "\<not> (src = ''aprMON'' \<and> dst = ''MON'')"
      and "swapDefault E account src dst si di swapAmount sourceAmount (timestamp + 1200)
                   slippagePercent w1 = (Inl e, tr, w')"
  shows "executeSwap E fromTok toTok swapAmount slippagePercent ws =
           (Failure e, GetBlock (Inr timestamp) # tr, w')"
  unfolding executeSwap_default [OF assms(1-9)] assms(10) by simp

lemma executeSwap_default_log:
  assumes "TEST_WALLET_PRIVATE_KEY E = Some k"
      and "k \<noteq> []"
      and "privateKeyToAccount E (formatPrivateKey k) = Inr account"
      and "normalizeTokens fromTok toTok = Inr (src, dst)"
      and "tokenInfo src = Inr si"
      and "tokenInfo dst = Inr di"
      and "parseUnits E swapAmount (decimals si) = Inr sourceAmount"
      and "getBlock E ws = (Inr timestamp, w1)"
      and "\<not> (src = ''aprMON'' \<and> dst = ''MON'')"
  shows "fst (snd (executeSwap E fromTok toTok swapAmount slippagePercent ws)) =
           GetBlock (Inr timestamp)
           # fst (snd (swapDefault E account src dst si di swapAmount sourceAmount (timestamp + 1200)
                             slippagePercent w1))"
  unfolding executeSwap_default [OF assms(1-9)] by (simp split: sum.splits prod.splits)

lemma native_swap_floor:
  assumes "slippagePercent * 10 = of_int slippageBps"
      and "TEST_WALLET_PRIVATE_KEY E = Some k"
      and "k \<noteq> []"
      and "privateKeyToAccount E (formatPrivateKey k) = Inr account"
      and "normalizeTokens fromTok toTok = Inr (src, dst)"
      and "tokenInfo src = Inr si"
      and "tokenInfo dst = Inr di"
      and "parseUnits E swapAmount (decimals si) = Inr sourceAmount"
      and "getBlock E ws = (Inr timestamp, w1)"
      and "src = ''MON''"
      and "readContractArray E SWAP_ROUTER_ADDRESS ''getAmountsOut''
             [Uint sourceAmount, AddrArray [address si, address di]] w1 = (Inr amounts, w2)"
      and "second amounts = Some expectedOutput"
      and "writeContract E SWAP_ROUTER_ADDRESS ''swapExactETHForTokens''
             [Uint (bigintDiv (expectedOutput * (1000 - slippageBps)) 1000),
              AddrArray [address si, address di], Addr account, Uint (timestamp + 1200)]
             (Some sourceAmount) w2 = (sub, w3)"
  shows "fst (snd (executeSwap E fromTok toTok swapAmount slippagePercent ws)) =
           [GetBlock (Inr timestamp),
            ReadContractArray SWAP_ROUTER_ADDRESS ''getAmountsOut''
              [Uint sourceAmount, AddrArray [address si, address di]] (Inr amounts),
            WriteContract SWAP_ROUTER_ADDRESS ''swapExactETHForTokens''
              [Uint (bigintDiv (expectedOutput * (1000 - slippageBps)) 1000),
               AddrArray [address si, address di], Addr account, Uint (timestamp + 1200)]
              (Some sourceAmount) sub]
           @ awaited E sub w3"
proof -
  from assms(10) have d: "\<not> (src = ''aprMON'' \<and> dst = ''MON'')" by simp
  from assms(13) assms(10)
  have sub: "writeContract E SWAP_ROUTER_ADDRESS ''swapExactETHForTokens''
      [Uint (bigintDiv (expectedOutput * (1000 - slippageBps)) 1000),
       AddrArray [address si, address di], Addr account, Uint (timestamp + 1200)]
      (Some sourceAmount) w2 = (sub, w3)" by simp
  from executeSwap_default_log [OF assms(2-9) d, of slippagePercent]
       default_native_submitted [OF assms(11,12) slippageFactor_bps [OF assms(1)] sub,
         of dst swapAmount]
       assms(10)
  show ?thesis by simp
qed

lemma token_swap_floor:
  assumes "slippagePercent * 10 = of_int slippageBps"
      and "TEST_WALLET_PRIVATE_KEY E = Some k"
      and "k \<noteq> []"
      and "privateKeyToAccount E (formatPrivateKey k) = Inr account"
      and "normalizeTokens fromTok toTok = Inr (src, dst)"
      and "tokenInfo src = Inr si"
      and "tokenInfo dst = Inr di"
      and "parseUnits E swapAmount (decimals si) = Inr sourceAmount"
      and "getBlock E ws = (Inr timestamp, w1)"
      and "src \<noteq> ''MON''"
      and "\<not> (src = ''aprMON'' \<and> dst = ''MON'')"
      and "readContractArray E SWAP_ROUTER_ADDRESS ''getAmountsOut''
             [Uint sourceAmount, AddrArray [address si, address di]] w1 = (Inr amounts, w2)"
      and "second amounts = Some expectedOutput"
      and "writeContract E (address si) ''approve''
             [Addr SWAP_ROUTER_ADDRESS, Uint sourceAmount] None w2 = (Inr ah, w3)"
      and "waitForTransactionReceipt E ah 60000 1 w3 = (Inr rc, w4)"
      and "writeContract E SWAP_ROUTER_ADDRESS
             (if dst = ''MON'' then ''swapExactTokensForETH'' else ''swapExactTokensForTokens'')
             [Uint sourceAmount, Uint (bigintDiv (expectedOutput * (1000 - slippageBps)) 1000),
              AddrArray [address si, address di], Addr account, Uint (timestamp + 1200)] None w4 = (sub, w5)"
  shows "fst (snd (executeSwap E fromTok toTok swapAmount slippagePercent ws)) =
           [GetBlock (Inr timestamp),
            ReadContractArray SWAP_ROUTER_ADDRESS ''getAmountsOut''
              [Uint sourceAmount, AddrArray [address si, address di]] (Inr amounts),
            WriteContract (address si) ''approve''
              [Addr SWAP_ROUTER_ADDRESS, Uint sourceAmount] None (Inr ah),
            WaitForTransactionReceipt ah 60000 1 (Inr rc),
            WriteContract SWAP_ROUTER_ADDRESS
              (if dst = ''MON'' then ''swapExactTokensForETH'' else ''swapExactTokensForTokens'')
              [Uint sourceAmount, Uint (bigintDiv (expectedOutput * (1000 - slippageBps)) 1000),
               AddrArray [address si, address di], Addr account, Uint (timestamp + 1200)] None sub]
           @ awaited E sub w5"
  using executeSwap_default_log [OF assms(2-9,11), of slippagePercent]
        default_token_submitted [OF assms(10,12,13) slippageFactor_bps [OF assms(1)]
          assms(14-16), of swapAmount]
  by simp

lemma special_swap_floor:
  assumes "slippagePercent * 10 = of_int slippageBps"
      and "TEST_WALLET_PRIVATE_KEY E = Some k"
      and "k \<noteq> []"
      and "privateKeyToAccount E (formatPrivateKey k) = Inr account"
      and "normalizeTokens fromTok toTok = Inr (src, dst)"
      and "tokenInfo src = Inr si"
      and "tokenInfo dst = Inr di"
      and "parseUnits E swapAmount (decimals si) = Inr sourceAmount"
      and "getBlock E ws = (Inr timestamp, w1)"
      and "src = ''aprMON''"
      and "dst = ''MON''"
      and "writeContract E APRIORI_STAKING_ADDRESS ''approve''
             [Addr SWAP_ROUTER_ADDRESS, Uint sourceAmount] None w1 = (Inr ah, w2)"
      and "waitForTransactionReceipt E ah 60000 1 w2 = (Inr rc, w3)"
      and "writeContract E SWAP_ROUTER_ADDRESS ''swapExactTokensForETH''
             [Uint sourceAmount,
              Uint (bigintDiv (bigintDiv (sourceAmount * 9988) 10000 * (1000 - slippageBps)) 1000),
              AddrArray specialPath, Addr account, Uint (timestamp + 1200)] None w3 = (sub, w4)"
  shows "fst (snd (executeSwap E fromTok toTok swapAmount slippagePercent ws)) =
           [GetBlock (Inr timestamp),
            WriteContract APRIORI_STAKING_ADDRESS ''approve''
              [Addr SWAP_ROUTER_ADDRESS, Uint sourceAmount] None (Inr ah),
            WaitForTransactionReceipt ah 60000 1 (Inr rc),
            WriteContract SWAP_ROUTER_ADDRESS ''swapExactTokensForETH''
              [Uint sourceAmount,
               Uint (bigintDiv (bigintDiv (sourceAmount * 9988) 10000 * (1000 - slippageBps)) 1000),
               AddrArray specialPath, Addr account, Uint (timestamp + 1200)] None sub]
           @ awaited E sub w4"
  using executeSwap_special_log [OF assms(2-11), of slippagePercent]
        special_swap_submitted [OF assms(12,13) slippageFactor_bps [OF assms(1)] assms(14),
          of src dst swapAmount]
  by simp

lemma floor_in_range:
  assumes "0 \<le> expectedOutput"
      and "slippageBps \<le> 1000"
  shows "bigintDiv (expectedOutput * (1000 - slippageBps)) 1000 =
           expectedOutput * (1000 - slippageBps) div 1000"
  using assms by (intro bigintDiv_floor) simp_all

text \<open>
  Claim C1. Let the slippage have at most one decimal, so that \<^verbatim>\<open>slippagePercent * 10\<close> is
  the integer \<open>slippageBps\<close>, and let the key, the symbols, the amount and the block read
  succeed. On each of the three ways to a swap call, the log of \<^verbatim>\<open>executeSwap\<close> is exactly
  the calls listed, and the \<^verbatim>\<open>amountOutMin\<close> argument of the one swap call is
  \<^verbatim>\<open>expectedOutput * (1000 - slippageBps) / 1000\<close> in BigInt arithmetic:
  \<^item> native source: the quote read, then \<^verbatim>\<open>swapExactETHForTokens\<close>, where \<open>expectedOutput\<close>
    is the second amount the quote read of this run answered;
  \<^item> token source: the quote read, the approval and its receipt, then
    \<^verbatim>\<open>swapExactTokensForETH\<close> or \<^verbatim>\<open>swapExactTokensForTokens\<close>, with the same
    \<open>expectedOutput\<close>;
  \<^item> aprMON to MON: the approval and its receipt, then \<^verbatim>\<open>swapExactTokensForETH\<close>, where
    the expected output is \<^verbatim>\<open>amountIn * 9988 / 10000\<close>.

  After the swap call the log holds nothing but the wait for its receipt. BigInt division
  truncates towards zero; for a non-negative expected output and a slippage of at most 100
  percent the floor is the quotient rounded down.
\<close>

theorem minimum_output_floor:
  assumes key: "TEST_WALLET_PRIVATE_KEY E = Some k" "k \<noteq> []"
      and acct: "privateKeyToAccount E (formatPrivateKey k) = Inr account"
      and bps: "slippagePercent * 10 = of_int slippageBps"
  shows
   "(normalizeTokens fromTok toTok = Inr (src, dst) \<and>
     tokenInfo src = Inr si \<and>
     tokenInfo dst = Inr di \<and>
     parseUnits E swapAmount (decimals si) = Inr sourceAmount \<and>
     getBlock E ws = (Inr timestamp, w1) \<longrightarrow>
        (src = ''MON'' \<and>
          readContractArray E SWAP_ROUTER_ADDRESS ''getAmountsOut''
            [Uint sourceAmount, AddrArray [address si, address di]] w1 = (Inr amounts, w2) \<and>
          second amounts = Some expectedOutput \<and>
          writeContract E SWAP_ROUTER_ADDRESS ''swapExactETHForTokens''
            [Uint (bigintDiv (expectedOutput * (1000 - slippageBps)) 1000),
             AddrArray [address si, address di], Addr account, Uint (timestamp + 1200)]
            (Some sourceAmount) w2 = (sub, w3) \<longrightarrow>
             fst (snd (executeSwap E fromTok toTok swapAmount slippagePercent ws)) =
               [GetBlock (Inr timestamp),
                ReadContractArray SWAP_ROUTER_ADDRESS ''getAmountsOut''
                  [Uint sourceAmount, AddrArray [address si, address di]] (Inr amounts),
                WriteContract SWAP_ROUTER_ADDRESS ''swapExactETHForTokens''
                  [Uint (bigintDiv (expectedOutput * (1000 - slippageBps)) 1000),
                   AddrArray [address si, address di], Addr account, Uint (timestamp + 1200)]
                  (Some sourceAmount) sub]
               @ awaited E sub w3)
        \<and> (src \<noteq> ''MON'' \<and>
          \<not> (src = ''aprMON'' \<and> dst = ''MON'') \<and>
          readContractArray E SWAP_ROUTER_ADDRESS ''getAmountsOut''
            [Uint sourceAmount, AddrArray [address si, address di]] w1 = (Inr amounts, w2) \<and>
          second amounts = Some expectedOutput \<and>
          writeContract E (address si) ''approve''
            [Addr SWAP_ROUTER_ADDRESS, Uint sourceAmount] None w2 = (Inr ah, w3) \<and>
          waitForTransactionReceipt E ah 60000 1 w3 = (Inr rc, w4) \<and>
          writeContract E SWAP_ROUTER_ADDRESS
            (if dst = ''MON'' then ''swapExactTokensForETH'' else ''swapExactTokensForTokens'')
            [Uint sourceAmount, Uint (bigintDiv (expectedOutput * (1000 - slippageBps)) 1000),
             AddrArray [address si, address di], Addr account, Uint (timestamp + 1200)] None w4 = (sub, w5) \<longrightarrow>
             fst (snd (executeSwap E fromTok toTok swapAmount slippagePercent ws)) =
               [GetBlock (Inr timestamp),
                ReadContractArray SWAP_ROUTER_ADDRESS ''getAmountsOut''
                  [Uint sourceAmount, AddrArray [address si, address di]] (Inr amounts),
                WriteContract (address si) ''approve''
                  [Addr SWAP_ROUTER_ADDRESS, Uint sourceAmount] None (Inr ah),
                WaitForTransactionReceipt ah 60000 1 (Inr rc),
                WriteContract SWAP_ROUTER_ADDRESS
                  (if dst = ''MON'' then ''swapExactTokensForETH'' else ''swapExactTokensForTokens'')
                  [Uint sourceAmount, Uint (bigintDiv (expectedOutput * (1000 - slippageBps)) 1000),
                   AddrArray [address si, address di], Addr account, Uint (timestamp + 1200)] None sub]
               @ awaited E sub w5)
        \<and> (src = ''aprMON'' \<and>
          dst = ''MON'' \<and>
          writeContract E APRIORI_STAKING_ADDRESS ''approve''
            [Addr SWAP_ROUTER_ADDRESS, Uint sourceAmount] None w1 = (Inr ah, w2) \<and>
          waitForTransactionReceipt E ah 60000 1 w2 = (Inr rc, w3) \<and>
          writeContract E SWAP_ROUTER_ADDRESS ''swapExactTokensForETH''
            [Uint sourceAmount,
             Uint (bigintDiv (bigintDiv (sourceAmount * 9988) 10000 * (1000 - slippageBps)) 1000),
             AddrArray specialPath, Addr account, Uint (timestamp + 1200)] None w3 = (sub, w4) \<longrightarrow>
             fst (snd (executeSwap E fromTok toTok swapAmount slippagePercent ws)) =
               [GetBlock (Inr timestamp),
                WriteContract APRIORI_STAKING_ADDRESS ''approve''
                  [Addr SWAP_ROUTER_ADDRESS, Uint sourceAmount] None (Inr ah),
                WaitForTransactionReceipt ah 60000 1 (Inr rc),
                WriteContract SWAP_ROUTER_ADDRESS ''swapExactTokensForETH''
                  [Uint sourceAmount,
                   Uint (bigintDiv (bigintDiv (sourceAmount * 9988) 10000 * (1000 - slippageBps)) 1000),
                   AddrArray specialPath, Addr account, Uint (timestamp + 1200)] None sub]
               @ awaited E sub w4))
   \<and> (0 \<le> expectedOutput \<and>
     slippageBps \<le> 1000 \<longrightarrow>
        bigintDiv (expectedOutput * (1000 - slippageBps)) 1000 =
          expectedOutput * (1000 - slippageBps) div 1000)"
  using bps key acct
  apply (intro conjI impI; (elim conjE)?)
  subgoal by (rule native_swap_floor, assumption+)
  subgoal by (rule token_swap_floor, assumption+)
  subgoal by (rule special_swap_floor, assumption+)
  subgoal by (rule floor_in_range, assumption+)
  done

text \<open>The example of the specification: an expected output of 1,000,000 units and a
  slippage of 2.0 percent give a floor of 980,000 units.\<close>

theorem minimum_output_floor_witness:
  "fst (snd (executeSwap mockEnv ''USDC'' ''USDT'' ''1'' 2 ())) =
     [GetBlock (Inr 1700000000),
      ReadContractArray SWAP_ROUTER_ADDRESS ''getAmountsOut''
        [Uint 1000000, AddrArray [''0xf817257fed379853cDe0fa4F97AB987181B1E5Ea'',
                                  ''0x88b8E2161DEDC77EF4ab7585569D2415a1C1055D'']]
        (Inr [0, 1000000]),
      WriteContract ''0xf817257fed379853cDe0fa4F97AB987181B1E5Ea'' ''approve''
        [Addr SWAP_ROUTER_ADDRESS, Uint 1000000] None (Inr ''0xapprove''),
      WaitForTransactionReceipt ''0xapprove'' 60000 1
        (Inr (minedReceipt ''success'' ''0xapprove'')),
      WriteContract SWAP_ROUTER_ADDRESS ''swapExactTokensForTokens''
        [Uint 1000000, Uint 980000,
         AddrArray [''0xf817257fed379853cDe0fa4F97AB987181B1E5Ea'',
                    ''0x88b8E2161DEDC77EF4ab7585569D2415a1C1055D''],
         Addr expectedAddress, Uint 1700001200] None (Inr ''0xswapExactTokensForTokens''),
      WaitForTransactionReceipt ''0xswapExactTokensForTokens'' 60000 1
        (Inr (minedReceipt ''success'' ''0xswapExactTokensForTokens''))]
   \<and> bigintDiv (1000000 * (1000 - 20)) 1000 = 980000
   \<and> (1000000 :: int) * (1000 - 20) div 1000 = 980000"
proof -
  have bps: "(2 :: rat) * 10 = of_int 20" by simp
  have calls:
    "getBlock mockEnv () = (Inr 1700000000, ())"
    "readContractArray mockEnv SWAP_ROUTER_ADDRESS ''getAmountsOut''
       [Uint 1000000, AddrArray [''0xf817257fed379853cDe0fa4F97AB987181B1E5Ea'',
                                 ''0x88b8E2161DEDC77EF4ab7585569D2415a1C1055D'']] ()
       = (Inr [0, 1000000], ())"
    "second [0, 1000000] = Some 1000000"
    "parseUnits mockEnv ''1'' 6 = Inr 1000000"
    "writeContract mockEnv ''0xf817257fed379853cDe0fa4F97AB987181B1E5Ea'' ''approve''
       [Addr SWAP_ROUTER_ADDRESS, Uint 1000000] None () = (Inr ''0xapprove'', ())"
    "waitForTransactionReceipt mockEnv ''0xapprove'' 60000 1 ()
       = (Inr (minedReceipt ''success'' ''0xapprove''), ())"
    "writeContract mockEnv SWAP_ROUTER_ADDRESS ''swapExactTokensForTokens''
       [Uint 1000000, Uint (bigintDiv (1000000 * (1000 - 20)) 1000),
        AddrArray [''0xf817257fed379853cDe0fa4F97AB987181B1E5Ea'',
                   ''0x88b8E2161DEDC77EF4ab7585569D2415a1C1055D''],
        Addr expectedAddress, Uint (1700000000 + 1200)] None ()
       = (Inr ''0xswapExactTokensForTokens'', ())"
    "awaited mockEnv (Inr ''0xswapExactTokensForTokens'') () =
       [WaitForTransactionReceipt ''0xswapExactTokensForTokens'' 60000 1
          (Inr (minedReceipt ''success'' ''0xswapExactTokensForTokens''))]"
    by (simp_all add: mockEnv_def second_def awaited_def)
  have floor: "bigintDiv (1000000 * (1000 - 20)) 1000 = 980000"
    by (simp add: bigintDiv_def signed_divide_int_def)
  from minimum_output_floor [OF mock_key bps,
         where fromTok = "''USDC''" and toTok = "''USDT''" and src = "''USDC''"
           and dst = "''USDT''" and swapAmount = "''1''" and sourceAmount = 1000000
           and si = "token ''USD Coin'' ''USDC'' 6 ''0xf817257fed379853cDe0fa4F97AB987181B1E5Ea''"
           and di = "token ''Tether USD'' ''USDT'' 6 ''0x88b8E2161DEDC77EF4ab7585569D2415a1C1055D''"
           and ws = "()" and timestamp = 1700000000 and ?w1.0 = "()" and amounts = "[0, 1000000]"
           and ?w2.0 = "()" and expectedOutput = 1000000 and ah = "''0xapprove''"
           and ?w3.0 = "()" and rc = "minedReceipt ''success'' ''0xapprove''" and ?w4.0 = "()"
           and sub = "Inr ''0xswapExactTokensForTokens''" and ?w5.0 = "()"]
       calls floor normalize_USDC_USDT tokenInfo_USDC tokenInfo_USDT
  show ?thesis by simp
qed

section \<open>Approvals\<close>

lemma unstake_withdraw_after_read:
  assumes "TEST_WALLET_PRIVATE_KEY E = Some k"
      and "k \<noteq> []"
      and "privateKeyToAccount E (formatPrivateKey k) = Inr account"
      and "parseUnits E amount 18 = Inr amountIn"
      and "readContract E APRIORI_STAKING_ADDRESS ''allowance''
             [Addr account, Addr APRIORI_STAKING_ADDRESS] w = (Inr al, wa)"
      and "amountIn \<le> al"
      and "writeContract E APRIORI_STAKING_ADDRESS ''withdraw''
             [Uint amountIn, Addr account, Addr account] None wa = (sub, wb)"
  shows "take 2 (fst (snd (requestUnstakeAprMON E amount False w))) =
           [ReadContract APRIORI_STAKING_ADDRESS ''allowance''
              [Addr account, Addr APRIORI_STAKING_ADDRESS] (Inr al),
            WriteContract APRIORI_STAKING_ADDRESS ''withdraw''
              [Uint amountIn, Addr account, Addr account] None sub]"
  using unstake_direct_after [OF approval_not_needed, OF assms(5,6,1,2,3,4,7), of 2] by simp

lemma strategies_submit_no_approval:
  assumes "catch (tryWithdraw E account staking amountIn)
             (\<lambda>unstakeError. tryTransfer E staking amountIn) w = (r, tr, w')"
  shows "filter isApprove tr = []"
  using assms
  by (auto simp add: tryWithdraw_def tryTransfer_def io_defs isApprove_def
      split: sum.splits prod.splits)

lemma unstake_without_approval:
  assumes "TEST_WALLET_PRIVATE_KEY E = Some k"
      and "k \<noteq> []"
      and "privateKeyToAccount E (formatPrivateKey k) = Inr account"
      and "parseUnits E amount 18 = Inr amountIn"
      and "readContract E APRIORI_STAKING_ADDRESS ''allowance''
             [Addr account, Addr APRIORI_STAKING_ADDRESS] w = (Inr al, wa)"
      and "amountIn \<le> al"
  shows "filter isApprove
           (fst (snd (requestUnstakeAprMON E amount False w))) = []"
proof -
  obtain r tr w' where
    c: "catch (tryWithdraw E account APRIORI_STAKING_ADDRESS amountIn)
          (\<lambda>unstakeError. tryTransfer E APRIORI_STAKING_ADDRESS amountIn) wa = (r, tr, w')"
    by (rule prod_cases3)
  from unstake_log_direct [OF approval_not_needed [OF assms(5,6)] assms(1-4) c]
       strategies_submit_no_approval [OF c]
  show ?thesis by (simp add: isApprove_def)
qed

lemma unstake_withdraw_after_approval:
  assumes "TEST_WALLET_PRIVATE_KEY E = Some k"
      and "k \<noteq> []"
      and "privateKeyToAccount E (formatPrivateKey k) = Inr account"
      and "parseUnits E amount 18 = Inr amountIn"
      and "readContract E APRIORI_STAKING_ADDRESS ''allowance''
             [Addr account, Addr APRIORI_STAKING_ADDRESS] w = (Inr al, wa)"
      and "al < amountIn"
      and "parseUnits E ''1000000000'' 18 = Inr cap"
      and "writeContract E APRIORI_STAKING_ADDRESS ''approve''
             [Addr APRIORI_STAKING_ADDRESS, Uint cap] None wa = (Inr ah, wb)"
      and "waitForTransactionReceipt E ah 60000 1 wb = (Inr rc, wc)"
      and "writeContract E APRIORI_STAKING_ADDRESS ''withdraw''
             [Uint amountIn, Addr account, Addr account] None wc = (sub, wd)"
  shows "take 4 (fst (snd (requestUnstakeAprMON E amount False w))) =
           [ReadContract APRIORI_STAKING_ADDRESS ''allowance''
              [Addr account, Addr APRIORI_STAKING_ADDRESS] (Inr al),
            WriteContract APRIORI_STAKING_ADDRESS ''approve''
              [Addr APRIORI_STAKING_ADDRESS, Uint cap] None (Inr ah),
            WaitForTransactionReceipt ah 60000 1 (Inr rc),
            WriteContract APRIORI_STAKING_ADDRESS ''withdraw''
              [Uint amountIn, Addr account, Addr account] None sub]"
  using unstake_direct_after [OF approval_confirmed, OF assms(5,6,7,8,9,1,2,3,4,10), of 4]
  by simp

lemma special_swap_after_approval:
  assumes "TEST_WALLET_PRIVATE_KEY E = Some k"
      and "k \<noteq> []"
      and "privateKeyToAccount E (formatPrivateKey k) = Inr account"
      and "normalizeTokens fromTok toTok = Inr (src, dst)"
      and "tokenInfo src = Inr si"
      and "tokenInfo dst = Inr di"
      and "parseUnits E swapAmount (decimals si) = Inr sourceAmount"
      and "getBlock E ws = (Inr timestamp, w1)"
      and "src = ''aprMON''"
      and "dst = ''MON''"
      and "writeContract E APRIORI_STAKING_ADDRESS ''approve''
             [Addr SWAP_ROUTER_ADDRESS, Uint sourceAmount] None w1 = (Inr ah, w2)"
      and "waitForTransactionReceipt E ah 60000 1 w2 = (Inr rc, w3)"
      and "slippageFactor slippagePercent = Inr factor"
      and "writeContract E SWAP_ROUTER_ADDRESS ''swapExactTokensForETH''
             [Uint sourceAmount,
              Uint (bigintDiv (bigintDiv (sourceAmount * 9988) 10000 * factor) 1000),
              AddrArray specialPath, Addr account, Uint (timestamp + 1200)] None w3 = (sub, w4)"
  shows "take 4 (fst (snd (executeSwap E fromTok toTok swapAmount slippagePercent ws))) =
           [GetBlock (Inr timestamp),
            WriteContract APRIORI_STAKING_ADDRESS ''approve''
              [Addr SWAP_ROUTER_ADDRESS, Uint sourceAmount] None (Inr ah),
            WaitForTransactionReceipt ah 60000 1 (Inr rc),
            WriteContract SWAP_ROUTER_ADDRESS ''swapExactTokensForETH''
              [Uint sourceAmount,
               Uint (bigintDiv (bigintDiv (sourceAmount * 9988) 10000 * factor) 1000),
               AddrArray specialPath, Addr account, Uint (timestamp + 1200)] None sub]"
  using executeSwap_special_log [OF assms(1-10)] special_swap_submitted [OF assms(11-14)]
  by simp

lemma default_swap_after_approval:
  assumes "TEST_WALLET_PRIVATE_KEY E = Some k"
      and "k \<noteq> []"
      and "privateKeyToAccount E (formatPrivateKey k) = Inr account"
      and "normalizeTokens fromTok toTok = Inr (src, dst)"
      and "tokenInfo src = Inr si"
      and "tokenInfo dst = Inr di"
      and "parseUnits E swapAmount (decimals si) = Inr sourceAmount"
      and "getBlock E ws = (Inr timestamp, w1)"
      and "src \<noteq> ''MON''"
      and "\<not> (src = ''aprMON'' \<and> dst = ''MON'')"
      and "readContractArray E SWAP_ROUTER_ADDRESS ''getAmountsOut''
             [Uint sourceAmount, AddrArray [address si, address di]] w1 = (Inr amounts, w2)"
      and "second amounts = Some expectedOutput"
      and "slippageFactor slippagePercent = Inr factor"
      and "writeContract E (address si) ''approve''
             [Addr SWAP_ROUTER_ADDRESS, Uint sourceAmount] None w2 = (Inr ah, w3)"
      and "waitForTransactionReceipt E ah 60000 1 w3 = (Inr rc, w4)"
      and "writeContract E SWAP_ROUTER_ADDRESS
             (if dst = ''MON'' then ''swapExactTokensForETH'' else ''swapExactTokensForTokens'')
             [Uint sourceAmount, Uint (bigintDiv (expectedOutput * factor) 1000),
              AddrArray [address si, address di], Addr account, Uint (timestamp + 1200)] None w4 = (sub, w5)"
  shows "take 5 (fst (snd (executeSwap E fromTok toTok swapAmount slippagePercent ws))) =
           [GetBlock (Inr timestamp),
            ReadContractArray SWAP_ROUTER_ADDRESS ''getAmountsOut''
              [Uint sourceAmount, AddrArray [address si, address di]] (Inr amounts),
            WriteContract (address si) ''approve''
              [Addr SWAP_ROUTER_ADDRESS, Uint sourceAmount] None (Inr ah),
            WaitForTransactionReceipt ah 60000 1 (Inr rc),
            WriteContract SWAP_ROUTER_ADDRESS
              (if dst = ''MON'' then ''swapExactTokensForETH'' else ''swapExactTokensForTokens'')
              [Uint sourceAmount, Uint (bigintDiv (expectedOutput * factor) 1000),
               AddrArray [address si, address di], Addr account, Uint (timestamp + 1200)] None sub]"
  using executeSwap_default_log [OF assms(1-8,10)]
        default_token_submitted [OF assms(9,11-16)]
  by simp

text \<open>
  Claim C2, as amended. Let the key and the amount be accepted.

  \<^verbatim>\<open>requestUnstakeAprMON\<close>, with either value of the swap flag, first reads
  \<^verbatim>\<open>allowance(account, APRIORI_STAKING_ADDRESS)\<close> on the aprMON token. When the read
  throws, the operation fails and makes no other call. When it answers at least the
  amount, the next call is the first call of the action: the \<^verbatim>\<open>withdraw\<close> call, and
  the whole log holds no approval; or with the flag set the calls of the swap of aprMON to
  MON, which approves the router as every swap of a token does. When
  it answers less, the next call is \<^verbatim>\<open>approve(APRIORI_STAKING_ADDRESS,
  parseUnits("1000000000", 18))\<close> on the aprMON token; a rejected approval ends the log
  with a failure; an accepted one is followed by the wait for the receipt of that very
  hash; a wait that throws ends the log with a failure; and when the receipt reports
  success the action follows as above.

  \<^verbatim>\<open>executeSwap\<close> never reads an allowance, and with the native source it submits no
  approval. With a token source, once the symbols, the amount and the block read have
  succeeded (and, off the special pair, the quote read and the slippage), the next call is
  \<^verbatim>\<open>approve(SWAP_ROUTER_ADDRESS, amountIn)\<close> on the source token, whatever the
  allowance; a rejected approval ends the log with a failure; an accepted one is followed
  by the wait for the receipt of that very hash; a wait that throws ends the log with a
  failure; and when the receipt reports success the next call is the swap call.

  What follows a receipt that does not report success is not stated here.
\<close>

theorem approval_before_action:
  assumes key: "TEST_WALLET_PRIVATE_KEY E = Some k" "k \<noteq> []"
      and acct: "privateKeyToAccount E (formatPrivateKey k) = Inr account"
  shows
   "(parseUnits E amount 18 = Inr amountIn \<longrightarrow>
        (readContract E APRIORI_STAKING_ADDRESS ''allowance''
            [Addr account, Addr APRIORI_STAKING_ADDRESS] w = (Inl e, wa) \<longrightarrow>
             requestUnstakeAprMON E amount useSwap w =
               (Failure e,
                [ReadContract APRIORI_STAKING_ADDRESS ''allowance''
                   [Addr account, Addr APRIORI_STAKING_ADDRESS] (Inl e)], wa))
        \<and> (readContract E APRIORI_STAKING_ADDRESS ''allowance''
            [Addr account, Addr APRIORI_STAKING_ADDRESS] w = (Inr al, wa) \<and>
          amountIn \<le> al \<longrightarrow>
             (writeContract E APRIORI_STAKING_ADDRESS ''withdraw''
                 [Uint amountIn, Addr account, Addr account] None wa = (sub, wb) \<longrightarrow>
                  take 2 (fst (snd (requestUnstakeAprMON E amount False w))) =
                    [ReadContract APRIORI_STAKING_ADDRESS ''allowance''
                       [Addr account, Addr APRIORI_STAKING_ADDRESS] (Inr al),
                     WriteContract APRIORI_STAKING_ADDRESS ''withdraw''
                       [Uint amountIn, Addr account, Addr account] None sub])
             \<and> filter isApprove
                 (fst (snd (requestUnstakeAprMON E amount False w))) = []
             \<and> fst (snd (requestUnstakeAprMON E amount True w)) =
                 [ReadContract APRIORI_STAKING_ADDRESS ''allowance''
                    [Addr account, Addr APRIORI_STAKING_ADDRESS] (Inr al)]
                 @ fst (snd (executeSwap E ''aprMON'' ''MON'' amount 5 wa)))
        \<and> (readContract E APRIORI_STAKING_ADDRESS ''allowance''
            [Addr account, Addr APRIORI_STAKING_ADDRESS] w = (Inr al, wa) \<and>
          al < amountIn \<and>
          parseUnits E ''1000000000'' 18 = Inr cap \<longrightarrow>
             (writeContract E APRIORI_STAKING_ADDRESS ''approve''
                 [Addr APRIORI_STAKING_ADDRESS, Uint cap] None wa = (Inl e, wb) \<longrightarrow>
                  requestUnstakeAprMON E amount useSwap w =
                    (Failure e,
                     [ReadContract APRIORI_STAKING_ADDRESS ''allowance''
                        [Addr account, Addr APRIORI_STAKING_ADDRESS] (Inr al),
                      WriteContract APRIORI_STAKING_ADDRESS ''approve''
                        [Addr APRIORI_STAKING_ADDRESS, Uint cap] None (Inl e)], wb))
             \<and> (writeContract E APRIORI_STAKING_ADDRESS ''approve''
                 [Addr APRIORI_STAKING_ADDRESS, Uint cap] None wa = (Inr ah, wb) \<longrightarrow>
                  (waitForTransactionReceipt E ah 60000 1 wb = (Inl e, wc) \<longrightarrow>
                       requestUnstakeAprMON E amount useSwap w =
                         (Failure e,
                          [ReadContract APRIORI_STAKING_ADDRESS ''allowance''
                             [Addr account, Addr APRIORI_STAKING_ADDRESS] (Inr al),
                           WriteContract APRIORI_STAKING_ADDRESS ''approve''
                             [Addr APRIORI_STAKING_ADDRESS, Uint cap] None (Inr ah),
                           WaitForTransactionReceipt ah 60000 1 (Inl e)], wc))
                  \<and> (waitForTransactionReceipt E ah 60000 1 wb = (Inr rc, wc) \<and>
                    status rc = StatusString ''success'' \<longrightarrow>
                       (writeContract E APRIORI_STAKING_ADDRESS ''withdraw''
                           [Uint amountIn, Addr account, Addr account] None wc = (sub, wd) \<longrightarrow>
                            take 4 (fst (snd (requestUnstakeAprMON E amount False w))) =
                              [ReadContract APRIORI_STAKING_ADDRESS ''allowance''
                                 [Addr account, Addr APRIORI_STAKING_ADDRESS] (Inr al),
                               WriteContract APRIORI_STAKING_ADDRESS ''approve''
                                 [Addr APRIORI_STAKING_ADDRESS, Uint cap] None (Inr ah),
                               WaitForTransactionReceipt ah 60000 1 (Inr rc),
                               WriteContract APRIORI_STAKING_ADDRESS ''withdraw''
                                 [Uint amountIn, Addr account, Addr account] None sub])
                       \<and> fst (snd (requestUnstakeAprMON E amount True w)) =
                           [ReadContract APRIORI_STAKING_ADDRESS ''allowance''
                              [Addr account, Addr APRIORI_STAKING_ADDRESS] (Inr al),
                            WriteContract APRIORI_STAKING_ADDRESS ''approve''
                              [Addr APRIORI_STAKING_ADDRESS, Uint cap] None (Inr ah),
                            WaitForTransactionReceipt ah 60000 1 (Inr rc)]
                           @ fst (snd (executeSwap E ''aprMON'' ''MON'' amount 5 wc))))))
   \<and> filter isAllowanceRead
       (fst (snd (executeSwap E fromTok toTok swapAmount slippagePercent ws))) = []
   \<and> (normalizeTokens fromTok toTok = Inr (''MON'', dst) \<longrightarrow>
        filter isApprove
          (fst (snd (executeSwap E fromTok toTok swapAmount slippagePercent ws))) = [])
   \<and> (normalizeTokens fromTok toTok = Inr (src, dst) \<and>
     tokenInfo src = Inr si \<and>
     tokenInfo dst = Inr di \<and>
     parseUnits E swapAmount (decimals si) = Inr sourceAmount \<and>
     getBlock E ws = (Inr timestamp, w1) \<longrightarrow>
        (src = ''aprMON'' \<and>
          dst = ''MON'' \<longrightarrow>
             (writeContract E APRIORI_STAKING_ADDRESS ''approve''
                 [Addr SWAP_ROUTER_ADDRESS, Uint sourceAmount] None w1 = (Inl e, w2) \<longrightarrow>
                  executeSwap E fromTok toTok swapAmount slippagePercent ws =
                    (Failure e,
                     [GetBlock (Inr timestamp),
                      WriteContract APRIORI_STAKING_ADDRESS ''approve''
                        [Addr SWAP_ROUTER_ADDRESS, Uint sourceAmount] None (Inl e)], w2))
             \<and> (writeContract E APRIORI_STAKING_ADDRESS ''approve''
                 [Addr SWAP_ROUTER_ADDRESS, Uint sourceAmount] None w1 = (Inr ah, w2) \<longrightarrow>
                  (waitForTransactionReceipt E ah 60000 1 w2 = (Inl e, w3) \<longrightarrow>
                       executeSwap E fromTok toTok swapAmount slippagePercent ws =
                         (Failure e,
                          [GetBlock (Inr timestamp),
                           WriteContract APRIORI_STAKING_ADDRESS ''approve''
                             [Addr SWAP_ROUTER_ADDRESS, Uint sourceAmount] None (Inr ah),
                           WaitForTransactionReceipt ah 60000 1 (Inl e)], w3))
                  \<and> (waitForTransactionReceipt E ah 60000 1 w2 = (Inr rc, w3) \<and>
                    status rc = StatusString ''success'' \<and>
                    slippageFactor slippagePercent = Inr factor \<and>
                    writeContract E SWAP_ROUTER_ADDRESS ''swapExactTokensForETH''
                      [Uint sourceAmount,
                       Uint (bigintDiv (bigintDiv (sourceAmount * 9988) 10000 * factor) 1000),
                       AddrArray specialPath, Addr account, Uint (timestamp + 1200)] None w3 = (sub, w4) \<longrightarrow>
                       take 4 (fst (snd (executeSwap E fromTok toTok swapAmount slippagePercent ws))) =
                         [GetBlock (Inr timestamp),
                          WriteContract APRIORI_STAKING_ADDRESS ''approve''
                            [Addr SWAP_ROUTER_ADDRESS, Uint sourceAmount] None (Inr ah),
                          WaitForTransactionReceipt ah 60000 1 (Inr rc),
                          WriteContract SWAP_ROUTER_ADDRESS ''swapExactTokensForETH''
                            [Uint sourceAmount,
                             Uint (bigintDiv (bigintDiv (sourceAmount * 9988) 10000 * factor) 1000),
                             AddrArray specialPath, Addr account, Uint (timestamp + 1200)] None sub])))
        \<and> (src \<noteq> ''MON'' \<and>
          \<not> (src = ''aprMON'' \<and> dst = ''MON'') \<and>
          readContractArray E SWAP_ROUTER_ADDRESS ''getAmountsOut''
            [Uint sourceAmount, AddrArray [address si, address di]] w1 = (Inr amounts, w2) \<and>
          second amounts = Some expectedOutput \<and>
          slippageFactor slippagePercent = Inr factor \<longrightarrow>
             (writeContract E (address si) ''approve''
                 [Addr SWAP_ROUTER_ADDRESS, Uint sourceAmount] None w2 = (Inl e, w3) \<longrightarrow>
                  executeSwap E fromTok toTok swapAmount slippagePercent ws =
                    (Failure e,
                     [GetBlock (Inr timestamp),
                      ReadContractArray SWAP_ROUTER_ADDRESS ''getAmountsOut''
                        [Uint sourceAmount, AddrArray [address si, address di]] (Inr amounts),
                      WriteContract (address si) ''approve''
                        [Addr SWAP_ROUTER_ADDRESS, Uint sourceAmount] None (Inl e)], w3))
             \<and> (writeContract E (address si) ''approve''
                 [Addr SWAP_ROUTER_ADDRESS, Uint sourceAmount] None w2 = (Inr ah, w3) \<longrightarrow>
                  (waitForTransactionReceipt E ah 60000 1 w3 = (Inl e, w4) \<longrightarrow>
                       executeSwap E fromTok toTok swapAmount slippagePercent ws =
                         (Failure e,
                          [GetBlock (Inr timestamp),
                           ReadContractArray SWAP_ROUTER_ADDRESS ''getAmountsOut''
                             [Uint sourceAmount, AddrArray [address si, address di]] (Inr amounts),
                           WriteContract (address si) ''approve''
                             [Addr SWAP_ROUTER_ADDRESS, Uint sourceAmount] None (Inr ah),
                           WaitForTransactionReceipt ah 60000 1 (Inl e)], w4))
                  \<and> (waitForTransactionReceipt E ah 60000 1 w3 = (Inr rc, w4) \<and>
                    status rc = StatusString ''success'' \<and>
                    writeContract E SWAP_ROUTER_ADDRESS
                      (if dst = ''MON'' then ''swapExactTokensForETH'' else ''swapExactTokensForTokens'')
                      [Uint sourceAmount, Uint (bigintDiv (expectedOutput * factor) 1000),
                       AddrArray [address si, address di], Addr account, Uint (timestamp + 1200)] None w4 = (sub, w5) \<longrightarrow>
                       take 5 (fst (snd (executeSwap E fromTok toTok swapAmount slippagePercent ws))) =
                         [GetBlock (Inr timestamp),
                          ReadContractArray SWAP_ROUTER_ADDRESS ''getAmountsOut''
                            [Uint sourceAmount, AddrArray [address si, address di]] (Inr amounts),
                          WriteContract (address si) ''approve''
                            [Addr SWAP_ROUTER_ADDRESS, Uint sourceAmount] None (Inr ah),
                          WaitForTransactionReceipt ah 60000 1 (Inr rc),
                          WriteContract SWAP_ROUTER_ADDRESS
                            (if dst = ''MON'' then ''swapExactTokensForETH'' else ''swapExactTokensForTokens'')
                            [Uint sourceAmount, Uint (bigintDiv (expectedOutput * factor) 1000),
                             AddrArray [address si, address di], Addr account, Uint (timestamp + 1200)] None sub]))))"
  using key acct
  apply (intro conjI impI; (elim conjE)?)
  subgoal by (rule unstake_fails_in_approval, rule approval_read_fails, assumption+)
  subgoal by (rule unstake_withdraw_after_read, assumption+)
  subgoal by (rule unstake_without_approval, assumption+)
  subgoal by (rule unstake_log_swap, rule approval_not_needed, assumption+)
  subgoal by (rule unstake_fails_in_approval, rule approval_rejected, assumption+)
  subgoal by (rule unstake_fails_in_approval, rule approval_unconfirmed, assumption+)
  subgoal by (rule unstake_withdraw_after_approval, assumption+)
  subgoal by (rule unstake_log_swap, rule approval_confirmed, assumption+)
  subgoal by (simp add: executeSwap_reads_no_allowance)
  subgoal by (simp add: executeSwap_reads_no_allowance)
  subgoal by (rule executeSwap_special_fails, assumption+, rule special_approve_rejected, assumption+)
  subgoal by (rule executeSwap_special_fails, assumption+, rule special_approve_unconfirmed, assumption+)
  subgoal by (rule special_swap_after_approval, assumption+)
  subgoal by (rule executeSwap_default_fails, assumption+, rule default_approve_rejected, assumption+)
  subgoal by (rule executeSwap_default_fails, assumption+, rule default_approve_unconfirmed, assumption+)
  subgoal by (rule default_swap_after_approval, assumption+)
  done

text \<open>
  Three runs: an unstake request with an allowance of zero (approval, receipt, then
  \<^verbatim>\<open>withdraw\<close>), one with an allowance of two tokens (\<^verbatim>\<open>withdraw\<close> at once), and a swap
  of one USDC (approval, receipt, then the swap call).
\<close>

theorem approval_before_action_witness:
  "take 4 (fst (snd (requestUnstakeAprMON emptyWalletEnv ''1'' False ()))) =
     [ReadContract APRIORI_STAKING_ADDRESS ''allowance''
        [Addr expectedAddress, Addr APRIORI_STAKING_ADDRESS] (Inr 0),
      WriteContract APRIORI_STAKING_ADDRESS ''approve''
        [Addr APRIORI_STAKING_ADDRESS, Uint (1000000000 * 10 ^ 18)] None (Inr ''0xapprove''),
      WaitForTransactionReceipt ''0xapprove'' 60000 1
        (Inr (minedReceipt ''success'' ''0xapprove'')),
      WriteContract APRIORI_STAKING_ADDRESS ''withdraw''
        [Uint (10 ^ 18), Addr expectedAddress, Addr expectedAddress] None (Inr ''0xwithdraw'')]
   \<and> take 2 (fst (snd (requestUnstakeAprMON mockEnv ''1'' False ()))) =
     [ReadContract APRIORI_STAKING_ADDRESS ''allowance''
        [Addr expectedAddress, Addr APRIORI_STAKING_ADDRESS] (Inr (2 * 10 ^ 18)),
      WriteContract APRIORI_STAKING_ADDRESS ''withdraw''
        [Uint (10 ^ 18), Addr expectedAddress, Addr expectedAddress] None (Inr ''0xwithdraw'')]
   \<and> take 5 (fst (snd (executeSwap mockEnv ''USDC'' ''USDT'' ''1'' 2 ()))) =
     [GetBlock (Inr 1700000000),
      ReadContractArray SWAP_ROUTER_ADDRESS ''getAmountsOut''
        [Uint 1000000, AddrArray [''0xf817257fed379853cDe0fa4F97AB987181B1E5Ea'',
                                  ''0x88b8E2161DEDC77EF4ab7585569D2415a1C1055D'']]
        (Inr [0, 1000000]),
      WriteContract ''0xf817257fed379853cDe0fa4F97AB987181B1E5Ea'' ''approve''
        [Addr SWAP_ROUTER_ADDRESS, Uint 1000000] None (Inr ''0xapprove''),
      WaitForTransactionReceipt ''0xapprove'' 60000 1
        (Inr (minedReceipt ''success'' ''0xapprove'')),
      WriteContract SWAP_ROUTER_ADDRESS ''swapExactTokensForTokens''
        [Uint 1000000, Uint 980000,
         AddrArray [''0xf817257fed379853cDe0fa4F97AB987181B1E5Ea'',
                    ''0x88b8E2161DEDC77EF4ab7585569D2415a1C1055D''],
         Addr expectedAddress, Uint 1700001200] None (Inr ''0xswapExactTokensForTokens'')]
   \<and> filter isAllowanceRead (fst (snd (executeSwap mockEnv ''USDC'' ''USDT'' ''1'' 2 ()))) = []"
proof -
  have poor:
    "parseUnits emptyWalletEnv ''1'' 18 = Inr (10 ^ 18)"
    "readContract emptyWalletEnv APRIORI_STAKING_ADDRESS ''allowance''
       [Addr expectedAddress, Addr APRIORI_STAKING_ADDRESS] () = (Inr 0, ())"
    "parseUnits emptyWalletEnv ''1000000000'' 18 = Inr (1000000000 * 10 ^ 18)"
    "writeContract emptyWalletEnv APRIORI_STAKING_ADDRESS ''approve''
       [Addr APRIORI_STAKING_ADDRESS, Uint (1000000000 * 10 ^ 18)] None ()
       = (Inr ''0xapprove'', ())"
    "waitForTransactionReceipt emptyWalletEnv ''0xapprove'' 60000 1 ()
       = (Inr (minedReceipt ''success'' ''0xapprove''), ())"
    "status (minedReceipt ''success'' ''0xapprove'') = StatusString ''success''"
    "writeContract emptyWalletEnv APRIORI_STAKING_ADDRESS ''withdraw''
       [Uint (10 ^ 18), Addr expectedAddress, Addr expectedAddress] None ()
       = (Inr ''0xwithdraw'', ())"
    by (simp_all add: emptyWalletEnv_def mockEnv_def minedReceipt_def)
  have rich:
    "parseUnits mockEnv ''1'' 18 = Inr (10 ^ 18)"
    "readContract mockEnv APRIORI_STAKING_ADDRESS ''allowance''
       [Addr expectedAddress, Addr APRIORI_STAKING_ADDRESS] () = (Inr (2 * 10 ^ 18), ())"
    "writeContract mockEnv APRIORI_STAKING_ADDRESS ''withdraw''
       [Uint (10 ^ 18), Addr expectedAddress, Addr expectedAddress] None ()
       = (Inr ''0xwithdraw'', ())"
    by (simp_all add: mockEnv_def)
  have swap:
    "getBlock mockEnv () = (Inr 1700000000, ())"
    "parseUnits mockEnv ''1'' 6 = Inr 1000000"
    "readContractArray mockEnv SWAP_ROUTER_ADDRESS ''getAmountsOut''
       [Uint 1000000, AddrArray [''0xf817257fed379853cDe0fa4F97AB987181B1E5Ea'',
                                 ''0x88b8E2161DEDC77EF4ab7585569D2415a1C1055D'']] ()
       = (Inr [0, 1000000], ())"
    "second [0, 1000000] = Some 1000000"
    "slippageFactor 2 = Inr 980"
    "writeContract mockEnv ''0xf817257fed379853cDe0fa4F97AB987181B1E5Ea'' ''approve''
       [Addr SWAP_ROUTER_ADDRESS, Uint 1000000] None () = (Inr ''0xapprove'', ())"
    "waitForTransactionReceipt mockEnv ''0xapprove'' 60000 1 ()
       = (Inr (minedReceipt ''success'' ''0xapprove''), ())"
    "writeContract mockEnv SWAP_ROUTER_ADDRESS ''swapExactTokensForTokens''
       [Uint 1000000, Uint (bigintDiv (1000000 * 980) 1000),
        AddrArray [''0xf817257fed379853cDe0fa4F97AB987181B1E5Ea'',
                   ''0x88b8E2161DEDC77EF4ab7585569D2415a1C1055D''],
        Addr expectedAddress, Uint (1700000000 + 1200)] None ()
       = (Inr ''0xswapExactTokensForTokens'', ())"
    "bigintDiv (1000000 * 980) 1000 = 980000"
    by (simp_all add: mockEnv_def second_def slippageFactor_def BigInt_def bigintDiv_def
          signed_divide_int_def)
  from approval_before_action [OF empty_wallet_key(1) mock_key(2) empty_wallet_key(2),
         where amount = "''1''" and amountIn = "10 ^ 18" and w = "()" and al = 0
           and wa = "()" and cap = "1000000000 * 10 ^ 18" and ah = "''0xapprove''"
           and wb = "()" and rc = "minedReceipt ''success'' ''0xapprove''" and wc = "()"
           and sub = "Inr ''0xwithdraw''" and wd = "()"]
       poor
  have one: "take 4 (fst (snd (requestUnstakeAprMON emptyWalletEnv ''1'' False ()))) =
     [ReadContract APRIORI_STAKING_ADDRESS ''allowance''
        [Addr expectedAddress, Addr APRIORI_STAKING_ADDRESS] (Inr 0),
      WriteContract APRIORI_STAKING_ADDRESS ''approve''
        [Addr APRIORI_STAKING_ADDRESS, Uint (1000000000 * 10 ^ 18)] None (Inr ''0xapprove''),
      WaitForTransactionReceipt ''0xapprove'' 60000 1
        (Inr (minedReceipt ''success'' ''0xapprove'')),
      WriteContract APRIORI_STAKING_ADDRESS ''withdraw''
        [Uint (10 ^ 18), Addr expectedAddress, Addr expectedAddress] None (Inr ''0xwithdraw'')]"
    by simp
  from approval_before_action [OF mock_key,
         where amount = "''1''" and amountIn = "10 ^ 18" and w = "()" and al = "2 * 10 ^ 18"
           and wa = "()" and sub = "Inr ''0xwithdraw''" and wb = "()"
           and fromTok = "''USDC''" and toTok = "''USDT''" and src = "''USDC''"
           and dst = "''USDT''" and swapAmount = "''1''" and sourceAmount = 1000000
           and si = "token ''USD Coin'' ''USDC'' 6 ''0xf817257fed379853cDe0fa4F97AB987181B1E5Ea''"
           and di = "token ''Tether USD'' ''USDT'' 6 ''0x88b8E2161DEDC77EF4ab7585569D2415a1C1055D''"
           and ws = "()" and slippagePercent = 2 and timestamp = 1700000000]
       rich
  have two: "take 2 (fst (snd (requestUnstakeAprMON mockEnv ''1'' False ()))) =
     [ReadContract APRIORI_STAKING_ADDRESS ''allowance''
        [Addr expectedAddress, Addr APRIORI_STAKING_ADDRESS] (Inr (2 * 10 ^ 18)),
      WriteContract APRIORI_STAKING_ADDRESS ''withdraw''
        [Uint (10 ^ 18), Addr expectedAddress, Addr expectedAddress] None (Inr ''0xwithdraw'')]"
    and none: "filter isAllowanceRead
       (fst (snd (executeSwap mockEnv ''USDC'' ''USDT'' ''1'' 2 ()))) = []"
    by simp_all
  from approval_before_action [OF mock_key,
         where fromTok = "''USDC''" and toTok = "''USDT''" and src = "''USDC''"
           and dst = "''USDT''" and swapAmount = "''1''" and sourceAmount = 1000000
           and si = "token ''USD Coin'' ''USDC'' 6 ''0xf817257fed379853cDe0fa4F97AB987181B1E5Ea''"
           and di = "token ''Tether USD'' ''USDT'' 6 ''0x88b8E2161DEDC77EF4ab7585569D2415a1C1055D''"
           and ws = "()" and slippagePercent = 2 and timestamp = 1700000000 and ?w1.0 = "()"
           and amounts = "[0, 1000000]" and ?w2.0 = "()" and expectedOutput = 1000000
           and factor = 980 and ah = "''0xapprove''" and ?w3.0 = "()"
           and rc = "minedReceipt ''success'' ''0xapprove''" and ?w4.0 = "()"
           and sub = "Inr ''0xswapExactTokensForTokens''" and ?w5.0 = "()"]
       swap poor(6) normalize_USDC_USDT tokenInfo_USDC tokenInfo_USDT
  have three: "take 5 (fst (snd (executeSwap mockEnv ''USDC'' ''USDT'' ''1'' 2 ()))) =
     [GetBlock (Inr 1700000000),
      ReadContractArray SWAP_ROUTER_ADDRESS ''getAmountsOut''
        [Uint 1000000, AddrArray [''0xf817257fed379853cDe0fa4F97AB987181B1E5Ea'',
                                  ''0x88b8E2161DEDC77EF4ab7585569D2415a1C1055D'']]
        (Inr [0, 1000000]),
      WriteContract ''0xf817257fed379853cDe0fa4F97AB987181B1E5Ea'' ''approve''
        [Addr SWAP_ROUTER_ADDRESS, Uint 1000000] None (Inr ''0xapprove''),
      WaitForTransactionReceipt ''0xapprove'' 60000 1
        (Inr (minedReceipt ''success'' ''0xapprove'')),
      WriteContract SWAP_ROUTER_ADDRESS ''swapExactTokensForTokens''
        [Uint 1000000, Uint 980000,
         AddrArray [''0xf817257fed379853cDe0fa4F97AB987181B1E5Ea'',
                    ''0x88b8E2161DEDC77EF4ab7585569D2415a1C1055D''],
         Addr expectedAddress, Uint 1700001200] None (Inr ''0xswapExactTokensForTokens'')]"
    by simp
  from one two none three show ?thesis by simp
qed

text \<open>
  Claim C2 as stated fails for swaps: the router's allowance on USDC is two tokens, the
  amount is one USDC, and \<^verbatim>\<open>executeSwap\<close> reads no allowance and submits an approval all
  the same.
\<close>

theorem swap_approves_unconditionally:
  "readContract mockEnv ''0xf817257fed379853cDe0fa4F97AB987181B1E5Ea'' ''allowance''
      [Addr expectedAddress, Addr SWAP_ROUTER_ADDRESS] () = (Inr (2 * 10 ^ 18), ())
   \<and> parseUnits mockEnv ''1'' 6 = Inr (10 ^ 6)
   \<and> fst (snd (executeSwap mockEnv ''USDC'' ''USDT'' ''1'' 2 ())) =
      [GetBlock (Inr 1700000000),
       ReadContractArray SWAP_ROUTER_ADDRESS ''getAmountsOut''
         [Uint (10 ^ 6), AddrArray [''0xf817257fed379853cDe0fa4F97AB987181B1E5Ea'',
                                    ''0x88b8E2161DEDC77EF4ab7585569D2415a1C1055D'']]
         (Inr [0, 1000000]),
       WriteContract ''0xf817257fed379853cDe0fa4F97AB987181B1E5Ea'' ''approve''
         [Addr SWAP_ROUTER_ADDRESS, Uint (10 ^ 6)] None (Inr ''0xapprove''),
       WaitForTransactionReceipt ''0xapprove'' 60000 1
         (Inr (minedReceipt ''success'' ''0xapprove'')),
       WriteContract SWAP_ROUTER_ADDRESS ''swapExactTokensForTokens''
         [Uint (10 ^ 6), Uint 980000,
          AddrArray [''0xf817257fed379853cDe0fa4F97AB987181B1E5Ea'',
                     ''0x88b8E2161DEDC77EF4ab7585569D2415a1C1055D''],
          Addr expectedAddress, Uint 1700001200] None (Inr ''0xswapExactTokensForTokens''),
       WaitForTransactionReceipt ''0xswapExactTokensForTokens'' 60000 1
         (Inr (minedReceipt ''success'' ''0xswapExactTokensForTokens''))]
   \<and> filter isAllowanceRead (fst (snd (executeSwap mockEnv ''USDC'' ''USDT'' ''1'' 2 ()))) = []
   \<and> filter isApprove (fst (snd (executeSwap mockEnv ''USDC'' ''USDT'' ''1'' 2 ()))) =
      [WriteContract ''0xf817257fed379853cDe0fa4F97AB987181B1E5Ea'' ''approve''
         [Addr SWAP_ROUTER_ADDRESS, Uint (10 ^ 6)] None (Inr ''0xapprove'')]"
  by (simp add: token_swap_run isAllowanceRead_def isApprove_def) (simp add: mockEnv_def)

section \<open>Amounts\<close>

lemma rejected_amount:
  assumes "\<forall>d. \<exists>e. parseUnits E amount d = Inl e"
  shows "parseUnits E amount d \<noteq> Inr a"
  using assms by (metis Inl_Inr_False)

lemma quote_rejects_amount:
  assumes "normalizeTokens fromTok toTok = Inr (src, dst)"
      and "tokenInfo src = Inr si" "tokenInfo dst = Inr di"
      and "parseUnits E amount (decimals si) = Inl e"
  shows "getSwapQuote E fromTok toTok amount w = (Failure e, [], w)"
  using assms by (simp add: getSwapQuote_def getSwapQuote_body_def io_defs)

lemma swap_rejects_amount:
  assumes "TEST_WALLET_PRIVATE_KEY E = Some k" "k \<noteq> []"
      and "privateKeyToAccount E (formatPrivateKey k) = Inr account"
      and "normalizeTokens fromTok toTok = Inr (src, dst)"
      and "tokenInfo src = Inr si" "tokenInfo dst = Inr di"
      and "parseUnits E amount (decimals si) = Inl e"
  shows "executeSwap E fromTok toTok amount s w = (Failure e, [], w)"
  using assms
  by (simp add: executeSwap_def executeSwap_body_def accountFromEnv_eq io_defs)

text \<open>
  Claim C4, as amended. For every amount that \<^verbatim>\<open>parseUnits\<close> rejects (a non-numeric
  amount), the quote, the swap, wrap, unwrap, stake and the unstake request all return a
  failure result without any chain call, and leave the world as it was. When the steps
  before the conversion succeed (the symbols, and for the swap the key), the failure of the
  quote and of the swap carries the error of \<^verbatim>\<open>parseUnits\<close> itself.
\<close>

theorem rejected_amount_fails_before_network:
  assumes rej: "\<forall>d. \<exists>e. parseUnits E amount d = Inl e"
  shows "(\<exists>e. getSwapQuote E fromTok toTok amount w = (Failure e, [], w))
       \<and> (\<exists>e. executeSwap E fromTok toTok amount slippagePercent w = (Failure e, [], w))
       \<and> (\<exists>e. wrapMON E amount w = (Failure e, [], w))
       \<and> (\<exists>e. unwrapWMON E amount w = (Failure e, [], w))
       \<and> (\<exists>e. stakeMON E amount w = (Failure e, [], w))
       \<and> (\<exists>e. requestUnstakeAprMON E amount useSwap w = (Failure e, [], w))
       \<and> (normalizeTokens fromTok toTok = Inr (src, dst) \<and>
           tokenInfo src = Inr si \<and> tokenInfo dst = Inr di \<and>
           parseUnits E amount (decimals si) = Inl e \<longrightarrow>
             getSwapQuote E fromTok toTok amount w = (Failure e, [], w) \<and>
             (TEST_WALLET_PRIVATE_KEY E = Some k \<and> k \<noteq> [] \<and>
              privateKeyToAccount E (formatPrivateKey k) = Inr account \<longrightarrow>
                executeSwap E fromTok toTok amount slippagePercent w = (Failure e, [], w)))"
proof (intro conjI impI)
  note np = rejected_amount [OF rej]
  show "\<exists>e. getSwapQuote E fromTok toTok amount w = (Failure e, [], w)"
    using np
    by (auto simp add: getSwapQuote_def getSwapQuote_body_def io_defs
        split: option.splits if_splits sum.splits prod.splits)
  show "\<exists>e. executeSwap E fromTok toTok amount slippagePercent w = (Failure e, [], w)"
    using np
    by (auto simp add: executeSwap_def executeSwap_body_def io_defs
        dest!: accountFromEnv_silent
        split: option.splits if_splits sum.splits prod.splits)
  show "\<exists>e. wrapMON E amount w = (Failure e, [], w)"
    using np
    by (auto simp add: wrapMON_def wrapMON_body_def getWalletClient_def io_defs
        dest!: accountFromEnv_silent
        split: option.splits if_splits sum.splits prod.splits)
  show "\<exists>e. unwrapWMON E amount w = (Failure e, [], w)"
    using np
    by (auto simp add: unwrapWMON_def unwrapWMON_body_def getWalletClient_def io_defs
        dest!: accountFromEnv_silent
        split: option.splits if_splits sum.splits prod.splits)
  show "\<exists>e. stakeMON E amount w = (Failure e, [], w)"
    using np
    by (auto simp add: stakeMON_def stakeMON_body_def io_defs
        dest!: accountFromEnv_silent
        split: option.splits if_splits sum.splits prod.splits)
  show "\<exists>e. requestUnstakeAprMON E amount useSwap w = (Failure e, [], w)"
    using np
    by (auto simp add: requestUnstakeAprMON_def requestUnstakeAprMON_body_def io_defs
        dest!: accountFromEnv_silent
        split: option.splits if_splits sum.splits prod.splits)
next
  assume h: "normalizeTokens fromTok toTok = Inr (src, dst) \<and>
           tokenInfo src = Inr si \<and> tokenInfo dst = Inr di \<and>
           parseUnits E amount (decimals si) = Inl e"
  then have q: "normalizeTokens fromTok toTok = Inr (src, dst)"
      "tokenInfo src = Inr si" "tokenInfo dst = Inr di"
      "parseUnits E amount (decimals si) = Inl e"
    by simp_all
  from quote_rejects_amount [OF q]
  show "getSwapQuote E fromTok toTok amount w = (Failure e, [], w)" .
  assume "TEST_WALLET_PRIVATE_KEY E = Some k \<and> k \<noteq> [] \<and>
              privateKeyToAccount E (formatPrivateKey k) = Inr account"
  then have a: "TEST_WALLET_PRIVATE_KEY E = Some k" "k \<noteq> []"
      "privateKeyToAccount E (formatPrivateKey k) = Inr account"
    by simp_all
  from swap_rejects_amount [OF a q]
  show "executeSwap E fromTok toTok amount slippagePercent w = (Failure e, [], w)" .
qed

theorem rejected_amount_fails_before_network_witness:
  "getSwapQuote mockEnv ''MON'' ''USDC'' ''abc'' () = (Failure ''InvalidDecimalNumberError'', [], ())
   \<and> executeSwap mockEnv ''MON'' ''USDC'' ''abc'' 2 ()
       = (Failure ''InvalidDecimalNumberError'', [], ())
   \<and> wrapMON mockEnv ''abc'' () = (Failure ''InvalidDecimalNumberError'', [], ())
   \<and> requestUnstakeAprMON mockEnv ''abc'' False ()
       = (Failure ''InvalidDecimalNumberError'', [], ())"
proof -
  have rej: "\<forall>d. \<exists>e. parseUnits mockEnv ''abc'' d = Inl e"
    by (simp add: mockEnv_def)
  have p: "parseUnits mockEnv ''abc'' 18 = Inl ''InvalidDecimalNumberError''"
    by (simp add: mockEnv_def)
  from rejected_amount_fails_before_network
         [OF rej, where fromTok = "''MON''" and toTok = "''USDC''" and w = "()"
            and slippagePercent = 2 and useSwap = False and src = "''MON''"
            and dst = "''USDC''" and k = "''0x01''" and account = expectedAddress
            and e = "''InvalidDecimalNumberError''"
            and si = "token ''Wrapped MON'' ''WMON'' 18 ''0x760AfE86e5de5fa0Ee542fc7B7B713e1c5425701''"
            and di = "token ''USD Coin'' ''USDC'' 6 ''0xf817257fed379853cDe0fa4F97AB987181B1E5Ea''"]
  show ?thesis
    by (simp add: mockEnv_def getSwapQuote_def getSwapQuote_body_def normalize_MON_USDC
          swap_default_eval wrap_eval unstake_eval)
qed

text \<open>
  Claim C4 as stated fails for the amount zero: \<^verbatim>\<open>parseUnits\<close> accepts \<^verbatim>\<open>"0"\<close>, no
  check follows, and both the quote and the swap go to the chain; here the router's read
  reverts, and the failure returned is the chain's, after the call.
\<close>

theorem zero_amount_reaches_network:
  "parseUnits revertingQuoteEnv ''0'' 18 = Inr 0
   \<and> getSwapQuote revertingQuoteEnv ''MON'' ''USDC'' ''0'' () =
      (Failure ''execution reverted'',
       [ReadContractArray SWAP_ROUTER_ADDRESS ''getAmountsOut''
          [Uint 0, AddrArray [''0x760AfE86e5de5fa0Ee542fc7B7B713e1c5425701'',
                              ''0xf817257fed379853cDe0fa4F97AB987181B1E5Ea'']]
          (Inl ''execution reverted'')], ())
   \<and> executeSwap revertingQuoteEnv ''MON'' ''USDC'' ''0'' 2 () =
      (Failure ''execution reverted'',
       [GetBlock (Inr 1700000000),
        ReadContractArray SWAP_ROUTER_ADDRESS ''getAmountsOut''
          [Uint 0, AddrArray [''0x760AfE86e5de5fa0Ee542fc7B7B713e1c5425701'',
                              ''0xf817257fed379853cDe0fa4F97AB987181B1E5Ea'']]
          (Inl ''execution reverted'')], ())"
  by (simp add: revertingQuoteEnv_def mockEnv_def getSwapQuote_def getSwapQuote_body_def
        normalize_MON_USDC swap_default_eval)

section \<open>The unstake strategies\<close>

text \<open>
  Claim C5, as amended. Take an unstake request with the swap flag unset whose key, amount
  and allowance read succeed, and whose approval, when the allowance is below the amount,
  is accepted and answered with a receipt; \<open>approvalLog\<close> is the calls of that approval.
  Then the next call is \<^verbatim>\<open>withdraw(amountIn, account, account)\<close> on the staking contract.
  \<^item> When it is accepted and its receipt reports success, the result is a success with
    method \<^verbatim>\<open>withdraw\<close>, and no transfer is attempted.
  \<^item> When it throws (the submission is rejected, or the wait for its receipt throws), the
    next call is \<^verbatim>\<open>transfer(APRIORI_STAKING_ADDRESS, amountIn)\<close> on the same contract.
    When the transfer is accepted and its receipt reports success, the result is a success
    with method \<^verbatim>\<open>transfer\<close>. When the transfer throws as well, the result is the
    failure result carrying the error of the transfer; the code has no classification of
    its own for this case.

  Each log is given in full. What follows a receipt that does not report success is not
  stated here.
\<close>

theorem unstake_withdraw_then_transfer:
  assumes key: "TEST_WALLET_PRIVATE_KEY E = Some k" "k \<noteq> []"
      and acct: "privateKeyToAccount E (formatPrivateKey k) = Inr account"
      and amt: "parseUnits E amount 18 = Inr amountIn"
      and allowance:
        "readContract E APRIORI_STAKING_ADDRESS ''allowance''
           [Addr account, Addr APRIORI_STAKING_ADDRESS] w = (Inr al, wa)"
      and approval:
        "(amountIn \<le> al \<and> approvalLog = [] \<and> w0 = wa) \<or>
         (al < amountIn \<and> parseUnits E ''1000000000'' 18 = Inr cap \<and>
          writeContract E APRIORI_STAKING_ADDRESS ''approve''
            [Addr APRIORI_STAKING_ADDRESS, Uint cap] None wa = (Inr ah, wb) \<and>
          waitForTransactionReceipt E ah 60000 1 wb = (Inr arc, w0) \<and>
          approvalLog =
            [WriteContract APRIORI_STAKING_ADDRESS ''approve''
               [Addr APRIORI_STAKING_ADDRESS, Uint cap] None (Inr ah),
             WaitForTransactionReceipt ah 60000 1 (Inr arc)])"
  shows
   "(writeContract E APRIORI_STAKING_ADDRESS ''withdraw''
       [Uint amountIn, Addr account, Addr account] None w0 = (Inr h, wm) \<and>
     waitForTransactionReceipt E h 60000 1 wm = (Inr rc, w2) \<and>
     status rc = StatusString ''success'' \<longrightarrow>
        requestUnstakeAprMON E amount False w =
          (Success
             \<lparr>unstake_amount = amount, unstake_receivedAmount = None,
                unstake_txHash = h, unstake_blockNumber = receipt.blockNumber rc,
                unstake_from = account, unstake_method = ''withdraw'',
                unstake_message = ''Your '' @ amount @ '' aprMON has been unstaked using the ''
                  @ ''withdraw'' @ '' method. Please check your MON balance.''\<rparr>,
           [ReadContract APRIORI_STAKING_ADDRESS ''allowance''
              [Addr account, Addr APRIORI_STAKING_ADDRESS] (Inr al)]
           @ approvalLog @
           [WriteContract APRIORI_STAKING_ADDRESS ''withdraw''
              [Uint amountIn, Addr account, Addr account] None (Inr h),
            WaitForTransactionReceipt h 60000 1 (Inr rc)], w2))
   \<and> ((writeContract E APRIORI_STAKING_ADDRESS ''withdraw''
        [Uint amountIn, Addr account, Addr account] None w0 = (Inl e, w1) \<and>
      withdrawLog =
        [WriteContract APRIORI_STAKING_ADDRESS ''withdraw''
           [Uint amountIn, Addr account, Addr account] None (Inl e)]) \<or>
     (writeContract E APRIORI_STAKING_ADDRESS ''withdraw''
        [Uint amountIn, Addr account, Addr account] None w0 = (Inr h, wm) \<and>
      waitForTransactionReceipt E h 60000 1 wm = (Inl e, w1) \<and>
      withdrawLog =
        [WriteContract APRIORI_STAKING_ADDRESS ''withdraw''
           [Uint amountIn, Addr account, Addr account] None (Inr h),
         WaitForTransactionReceipt h 60000 1 (Inl e)]) \<longrightarrow>
        (writeContract E APRIORI_STAKING_ADDRESS ''transfer''
            [Addr APRIORI_STAKING_ADDRESS, Uint amountIn] None w1 = (Inr th, w2) \<and>
          waitForTransactionReceipt E th 60000 1 w2 = (Inr rc, w3) \<and>
          status rc = StatusString ''success'' \<longrightarrow>
             requestUnstakeAprMON E amount False w =
               (Success
                  \<lparr>unstake_amount = amount, unstake_receivedAmount = None,
                     unstake_txHash = th, unstake_blockNumber = receipt.blockNumber rc,
                     unstake_from = account, unstake_method = ''transfer'',
                     unstake_message = ''Your '' @ amount @ '' aprMON has been unstaked using the ''
                       @ ''transfer'' @ '' method. Please check your MON balance.''\<rparr>,
                [ReadContract APRIORI_STAKING_ADDRESS ''allowance''
                   [Addr account, Addr APRIORI_STAKING_ADDRESS] (Inr al)]
                @ approvalLog @ withdrawLog @
                [WriteContract APRIORI_STAKING_ADDRESS ''transfer''
                   [Addr APRIORI_STAKING_ADDRESS, Uint amountIn] None (Inr th),
                 WaitForTransactionReceipt th 60000 1 (Inr rc)], w3))
        \<and> (writeContract E APRIORI_STAKING_ADDRESS ''transfer''
            [Addr APRIORI_STAKING_ADDRESS, Uint amountIn] None w1 = (Inl e', w2) \<longrightarrow>
             requestUnstakeAprMON E amount False w =
               (Failure e',
                [ReadContract APRIORI_STAKING_ADDRESS ''allowance''
                   [Addr account, Addr APRIORI_STAKING_ADDRESS] (Inr al)]
                @ approvalLog @ withdrawLog @
                [WriteContract APRIORI_STAKING_ADDRESS ''transfer''
                   [Addr APRIORI_STAKING_ADDRESS, Uint amountIn] None (Inl e')], w2))
        \<and> (writeContract E APRIORI_STAKING_ADDRESS ''transfer''
            [Addr APRIORI_STAKING_ADDRESS, Uint amountIn] None w1 = (Inr th, w2) \<and>
          waitForTransactionReceipt E th 60000 1 w2 = (Inl e', w3) \<longrightarrow>
             requestUnstakeAprMON E amount False w =
               (Failure e',
                [ReadContract APRIORI_STAKING_ADDRESS ''allowance''
                   [Addr account, Addr APRIORI_STAKING_ADDRESS] (Inr al)]
                @ approvalLog @ withdrawLog @
                [WriteContract APRIORI_STAKING_ADDRESS ''transfer''
                   [Addr APRIORI_STAKING_ADDRESS, Uint amountIn] None (Inr th),
                 WaitForTransactionReceipt th 60000 1 (Inl e')], w3)))"
  using key acct amt allowance approval
  by (elim disjE conjE; simp add: unstake_sym; fastforce)

text \<open>
  Three runs with an allowance of two tokens: the \<^verbatim>\<open>withdraw\<close> call is rejected and
  the transfer goes through; both are rejected; the \<^verbatim>\<open>withdraw\<close> call goes through.
\<close>

theorem unstake_withdraw_then_transfer_witness:
  "requestUnstakeAprMON (withdrawFailsEnv False) ''1'' False () =
    (Success \<lparr>unstake_amount = ''1'', unstake_receivedAmount = None,
              unstake_txHash = ''0xtransfer'', unstake_blockNumber = 7,
              unstake_from = expectedAddress, unstake_method = ''transfer'',
              unstake_message = ''Your 1 aprMON has been unstaked using the transfer method. Please check your MON balance.''\<rparr>,
     [ReadContract APRIORI_STAKING_ADDRESS ''allowance''
        [Addr expectedAddress, Addr APRIORI_STAKING_ADDRESS] (Inr (2 * 10 ^ 18)),
      WriteContract APRIORI_STAKING_ADDRESS ''withdraw''
        [Uint (10 ^ 18), Addr expectedAddress, Addr expectedAddress] None
        (Inl ''withdraw rejected''),
      WriteContract APRIORI_STAKING_ADDRESS ''transfer''
        [Addr APRIORI_STAKING_ADDRESS, Uint (10 ^ 18)] None (Inr ''0xtransfer''),
      WaitForTransactionReceipt ''0xtransfer'' 60000 1
        (Inr (minedReceipt ''success'' ''0xtransfer''))], ())
   \<and> requestUnstakeAprMON (withdrawFailsEnv True) ''1'' False () =
    (Failure ''transfer rejected'',
     [ReadContract APRIORI_STAKING_ADDRESS ''allowance''
        [Addr expectedAddress, Addr APRIORI_STAKING_ADDRESS] (Inr (2 * 10 ^ 18)),
      WriteContract APRIORI_STAKING_ADDRESS ''withdraw''
        [Uint (10 ^ 18), Addr expectedAddress, Addr expectedAddress] None
        (Inl ''withdraw rejected''),
      WriteContract APRIORI_STAKING_ADDRESS ''transfer''
        [Addr APRIORI_STAKING_ADDRESS, Uint (10 ^ 18)] None (Inl ''transfer rejected'')], ())
   \<and> requestUnstakeAprMON mockEnv ''1'' False () =
    (Success \<lparr>unstake_amount = ''1'', unstake_receivedAmount = None,
              unstake_txHash = ''0xwithdraw'', unstake_blockNumber = 7,
              unstake_from = expectedAddress, unstake_method = ''withdraw'',
              unstake_message = ''Your 1 aprMON has been unstaked using the withdraw method. Please check your MON balance.''\<rparr>,
     [ReadContract APRIORI_STAKING_ADDRESS ''allowance''
        [Addr expectedAddress, Addr APRIORI_STAKING_ADDRESS] (Inr (2 * 10 ^ 18)),
      WriteContract APRIORI_STAKING_ADDRESS ''withdraw''
        [Uint (10 ^ 18), Addr expectedAddress, Addr expectedAddress] None (Inr ''0xwithdraw''),
      WaitForTransactionReceipt ''0xwithdraw'' 60000 1
        (Inr (minedReceipt ''success'' ''0xwithdraw''))], ())"
proof -
  have prep:
    "parseUnits (withdrawFailsEnv both) ''1'' 18 = Inr (10 ^ 18)"
    "readContract (withdrawFailsEnv both) APRIORI_STAKING_ADDRESS ''allowance''
       [Addr expectedAddress, Addr APRIORI_STAKING_ADDRESS] () = (Inr (2 * 10 ^ 18), ())"
    "(10 ^ 18 :: int) \<le> 2 * 10 ^ 18 \<and> ([] :: event list) = [] \<and> () = () \<or>
     (2 * 10 ^ 18 :: int) < 10 ^ 18 \<and> parseUnits (withdrawFailsEnv both) ''1000000000'' 18 = Inr cap \<and>
     writeContract (withdrawFailsEnv both) APRIORI_STAKING_ADDRESS ''approve''
       [Addr APRIORI_STAKING_ADDRESS, Uint cap] None () = (Inr ah, wb) \<and>
     waitForTransactionReceipt (withdrawFailsEnv both) ah 60000 1 wb = (Inr arc, ()) \<and>
     [] = [WriteContract APRIORI_STAKING_ADDRESS ''approve''
             [Addr APRIORI_STAKING_ADDRESS, Uint cap] None (Inr ah),
           WaitForTransactionReceipt ah 60000 1 (Inr arc)]"
    for both cap ah wb arc
    by (simp_all add: withdrawFailsEnv_def mockEnv_def)
  have prep':
    "parseUnits mockEnv ''1'' 18 = Inr (10 ^ 18)"
    "readContract mockEnv APRIORI_STAKING_ADDRESS ''allowance''
       [Addr expectedAddress, Addr APRIORI_STAKING_ADDRESS] () = (Inr (2 * 10 ^ 18), ())"
    "(10 ^ 18 :: int) \<le> 2 * 10 ^ 18 \<and> ([] :: event list) = [] \<and> () = () \<or>
     (2 * 10 ^ 18 :: int) < 10 ^ 18 \<and> parseUnits mockEnv ''1000000000'' 18 = Inr cap \<and>
     writeContract mockEnv APRIORI_STAKING_ADDRESS ''approve''
       [Addr APRIORI_STAKING_ADDRESS, Uint cap] None () = (Inr ah, wb) \<and>
     waitForTransactionReceipt mockEnv ah 60000 1 wb = (Inr arc, ()) \<and>
     [] = [WriteContract APRIORI_STAKING_ADDRESS ''approve''
             [Addr APRIORI_STAKING_ADDRESS, Uint cap] None (Inr ah),
           WaitForTransactionReceipt ah 60000 1 (Inr arc)]"
    for cap ah wb arc
    by (simp_all add: mockEnv_def)
  have calls:
    "writeContract (withdrawFailsEnv both) APRIORI_STAKING_ADDRESS ''withdraw''
       [Uint (10 ^ 18), Addr expectedAddress, Addr expectedAddress] None ()
       = (Inl ''withdraw rejected'', ())"
    "writeContract (withdrawFailsEnv False) APRIORI_STAKING_ADDRESS ''transfer''
       [Addr APRIORI_STAKING_ADDRESS, Uint (10 ^ 18)] None () = (Inr ''0xtransfer'', ())"
    "waitForTransactionReceipt (withdrawFailsEnv False) ''0xtransfer'' 60000 1 ()
       = (Inr (minedReceipt ''success'' ''0xtransfer''), ())"
    "writeContract (withdrawFailsEnv True) APRIORI_STAKING_ADDRESS ''transfer''
       [Addr APRIORI_STAKING_ADDRESS, Uint (10 ^ 18)] None () = (Inl ''transfer rejected'', ())"
    "writeContract mockEnv APRIORI_STAKING_ADDRESS ''withdraw''
       [Uint (10 ^ 18), Addr expectedAddress, Addr expectedAddress] None ()
       = (Inr ''0xwithdraw'', ())"
    "waitForTransactionReceipt mockEnv ''0xwithdraw'' 60000 1 ()
       = (Inr (minedReceipt ''success'' ''0xwithdraw''), ())"
    "status (minedReceipt ''success'' h) = StatusString ''success''"
    "receipt.blockNumber (minedReceipt ''success'' h) = 7"
    for both h
    by (simp_all add: withdrawFailsEnv_def mockEnv_def minedReceipt_def)
  from unstake_withdraw_then_transfer
         [OF withdraw_fails_key(1) [where both = False] mock_key(2)
             withdraw_fails_key(2) [where both = False] prep [where both = False],
          where e = "''withdraw rejected''" and ?w1.0 = "()"
            and withdrawLog = "[WriteContract APRIORI_STAKING_ADDRESS ''withdraw''
                [Uint (10 ^ 18), Addr expectedAddress, Addr expectedAddress] None
                (Inl ''withdraw rejected'')]"
            and th = "''0xtransfer''" and ?w2.0 = "()"
            and rc = "minedReceipt ''success'' ''0xtransfer''" and ?w3.0 = "()"]
       calls
  have one: "requestUnstakeAprMON (withdrawFailsEnv False) ''1'' False () =
    (Success \<lparr>unstake_amount = ''1'', unstake_receivedAmount = None,
              unstake_txHash = ''0xtransfer'', unstake_blockNumber = 7,
              unstake_from = expectedAddress, unstake_method = ''transfer'',
              unstake_message = ''Your 1 aprMON has been unstaked using the transfer method. Please check your MON balance.''\<rparr>,
     [ReadContract APRIORI_STAKING_ADDRESS ''allowance''
        [Addr expectedAddress, Addr APRIORI_STAKING_ADDRESS] (Inr (2 * 10 ^ 18)),
      WriteContract APRIORI_STAKING_ADDRESS ''withdraw''
        [Uint (10 ^ 18), Addr expectedAddress, Addr expectedAddress] None
        (Inl ''withdraw rejected''),
      WriteContract APRIORI_STAKING_ADDRESS ''transfer''
        [Addr APRIORI_STAKING_ADDRESS, Uint (10 ^ 18)] None (Inr ''0xtransfer''),
      WaitForTransactionReceipt ''0xtransfer'' 60000 1
        (Inr (minedReceipt ''success'' ''0xtransfer''))], ())"
    by simp
  from unstake_withdraw_then_transfer
         [OF withdraw_fails_key(1) [where both = True] mock_key(2)
             withdraw_fails_key(2) [where both = True] prep [where both = True],
          where e = "''withdraw rejected''" and ?w1.0 = "()"
            and withdrawLog = "[WriteContract APRIORI_STAKING_ADDRESS ''withdraw''
                [Uint (10 ^ 18), Addr expectedAddress, Addr expectedAddress] None
                (Inl ''withdraw rejected'')]"
            and e' = "''transfer rejected''" and ?w2.0 = "()"]
       calls
  have two: "requestUnstakeAprMON (withdrawFailsEnv True) ''1'' False () =
    (Failure ''transfer rejected'',
     [ReadContract APRIORI_STAKING_ADDRESS ''allowance''
        [Addr expectedAddress, Addr APRIORI_STAKING_ADDRESS] (Inr (2 * 10 ^ 18)),
      WriteContract APRIORI_STAKING_ADDRESS ''withdraw''
        [Uint (10 ^ 18), Addr expectedAddress, Addr expectedAddress] None
        (Inl ''withdraw rejected''),
      WriteContract APRIORI_STAKING_ADDRESS ''transfer''
        [Addr APRIORI_STAKING_ADDRESS, Uint (10 ^ 18)] None (Inl ''transfer rejected'')], ())"
    by simp
  from unstake_withdraw_then_transfer
         [OF mock_key prep',
          where h = "''0xwithdraw''" and wm = "()" and ?w2.0 = "()"
            and rc = "minedReceipt ''success'' ''0xwithdraw''"]
       calls
  have three: "requestUnstakeAprMON mockEnv ''1'' False () =
    (Success \<lparr>unstake_amount = ''1'', unstake_receivedAmount = None,
              unstake_txHash = ''0xwithdraw'', unstake_blockNumber = 7,
              unstake_from = expectedAddress, unstake_method = ''withdraw'',
              unstake_message = ''Your 1 aprMON has been unstaked using the withdraw method. Please check your MON balance.''\<rparr>,
     [ReadContract APRIORI_STAKING_ADDRESS ''allowance''
        [Addr expectedAddress, Addr APRIORI_STAKING_ADDRESS] (Inr (2 * 10 ^ 18)),
      WriteContract APRIORI_STAKING_ADDRESS ''withdraw''
        [Uint (10 ^ 18), Addr expectedAddress, Addr expectedAddress] None (Inr ''0xwithdraw''),
      WaitForTransactionReceipt ''0xwithdraw'' 60000 1
        (Inr (minedReceipt ''success'' ''0xwithdraw''))], ())"
    by simp
  from one two three show ?thesis by simp
qed

text \<open>
  Claim C5 as stated fails twice. When the \<^verbatim>\<open>withdraw\<close> transaction is mined with
  status \<^verbatim>\<open>reverted\<close>, the call has failed on the chain, yet no transfer is attempted
  and the result is a success with method \<^verbatim>\<open>withdraw\<close>. And when both calls are
  rejected, the result is the plain failure result with the text of the transfer's error:
  nothing in it says that the strategies are exhausted.
\<close>

theorem reverted_withdraw_has_no_fallback:
  "requestUnstakeAprMON revertingEnv ''1'' False () =
    (Success \<lparr>unstake_amount = ''1'', unstake_receivedAmount = None,
              unstake_txHash = ''0xwithdraw'', unstake_blockNumber = 7,
              unstake_from = expectedAddress, unstake_method = ''withdraw'',
              unstake_message = ''Your 1 aprMON has been unstaked using the withdraw method. Please check your MON balance.''\<rparr>,
     [ReadContract APRIORI_STAKING_ADDRESS ''allowance''
        [Addr expectedAddress, Addr APRIORI_STAKING_ADDRESS] (Inr (2 * 10 ^ 18)),
      WriteContract APRIORI_STAKING_ADDRESS ''withdraw''
        [Uint (10 ^ 18), Addr expectedAddress, Addr expectedAddress] None (Inr ''0xwithdraw''),
      WaitForTransactionReceipt ''0xwithdraw'' 60000 1
        (Inr \<lparr>status = StatusString ''reverted'', blockNumber = 7,
               transactionHash = ''0xwithdraw''\<rparr>)], ())
   \<and> requestUnstakeAprMON (withdrawFailsEnv True) ''1'' False () =
    (Failure ''transfer rejected'',
     [ReadContract APRIORI_STAKING_ADDRESS ''allowance''
        [Addr expectedAddress, Addr APRIORI_STAKING_ADDRESS] (Inr (2 * 10 ^ 18)),
      WriteContract APRIORI_STAKING_ADDRESS ''withdraw''
        [Uint (10 ^ 18), Addr expectedAddress, Addr expectedAddress] None
        (Inl ''withdraw rejected''),
      WriteContract APRIORI_STAKING_ADDRESS ''transfer''
        [Addr APRIORI_STAKING_ADDRESS, Uint (10 ^ 18)] None (Inl ''transfer rejected'')], ())"
  by (simp add: revertingEnv_def withdrawFailsEnv_def mockEnv_def unstake_eval)

section \<open>The path of a quote\<close>

text \<open>For every pair, the one chain call of \<^verbatim>\<open>getSwapQuote\<close> is the read of
  \<^verbatim>\<open>getAmountsOut\<close> along the pair of the two token addresses.\<close>

lemma quote_reads_the_pair:
  assumes "normalizeTokens fromTok toTok = Inr (src, dst)"
      and "tokenInfo src = Inr si" "tokenInfo dst = Inr di"
      and "parseUnits E amount (decimals si) = Inr amountIn"
      and "readContractArray E SWAP_ROUTER_ADDRESS ''getAmountsOut''
             [Uint amountIn, AddrArray [address si, address di]] w = (ans, w')"
  shows "fst (snd (getSwapQuote E fromTok toTok amount w)) =
           [ReadContractArray SWAP_ROUTER_ADDRESS ''getAmountsOut''
              [Uint amountIn, AddrArray [address si, address di]] ans]"
  using assms
  by (auto simp add: getSwapQuote_def getSwapQuote_body_def io_defs Let_def
      split: option.splits sum.splits prod.splits)


section \<open>Balance checks\<close>

text \<open>
  Claim C7, as amended. Let the key and the amount be accepted (and for \<^verbatim>\<open>wrapMON\<close> and
  \<^verbatim>\<open>unwrapWMON\<close> the configuration be loaded, for \<^verbatim>\<open>stakeMON\<close> the wallet be the
  expected one). The first chain call is the balance query of the account derived from the
  key: \<^verbatim>\<open>getBalance(account)\<close>, the native balance, for \<^verbatim>\<open>wrapMON\<close> and \<^verbatim>\<open>stakeMON\<close>;
  the read \<^verbatim>\<open>balanceOf(account)\<close> on the WMON contract for \<^verbatim>\<open>unwrapWMON\<close>. When the
  query throws, or answers a balance below the parsed amount, it is the only call, and the
  result is the failure result with the query's error or with the message \<^verbatim>\<open>Insufficient
  ... balance\<close>. When it answers at least the parsed amount, the next call submits the
  transaction: \<^verbatim>\<open>deposit\<close> on WMON with the amount as value, \<^verbatim>\<open>withdraw(amount)\<close> on
  WMON, \<^verbatim>\<open>deposit(amount, account)\<close> on the staking contract with the amount as value.
\<close>

theorem balance_checked_by_wrap_unwrap_stake:
  assumes key: "TEST_WALLET_PRIVATE_KEY E = Some k" "k \<noteq> []"
      and acct: "privateKeyToAccount E (formatPrivateKey k) = Inr account"
  shows
   "(parseUnits E amount 18 = Inr amountIn \<longrightarrow>
      (configImports E \<longrightarrow>
           (getBalance E account w = (Inl e, w1) \<longrightarrow>
                wrapMON E amount w =
                  (Failure e,
                   [GetBalance account (Inl e)], w1))
           \<and> (getBalance E account w = (Inr b, w1) \<longrightarrow>
                (b < amountIn \<longrightarrow>
                     wrapMON E amount w =
                       (Failure (''Insufficient MON balance. You have '' @ formatUnits E b 18
                                 @ '' MON but trying to wrap '' @ amount @ '' MON''),
                        [GetBalance account (Inr b)], w1))
                \<and> (amountIn \<le> b \<and>
                  writeContract E wmonAddress ''deposit'' [] (Some amountIn) w1 = (sub, w2) \<longrightarrow>
                     take 2 (fst (snd (wrapMON E amount w))) =
                       [GetBalance account (Inr b),
                        WriteContract wmonAddress ''deposit'' [] (Some amountIn) sub]))
           \<and> (readContract E wmonAddress ''balanceOf'' [Addr account] w = (Inl e, w1) \<longrightarrow>
                unwrapWMON E amount w =
                  (Failure e,
                   [ReadContract wmonAddress ''balanceOf'' [Addr account] (Inl e)], w1))
           \<and> (readContract E wmonAddress ''balanceOf'' [Addr account] w = (Inr b, w1) \<longrightarrow>
                (b < amountIn \<longrightarrow>
                     unwrapWMON E amount w =
                       (Failure (''Insufficient WMON balance. You have '' @ formatUnits E b 18
                                 @ '' WMON but trying to unwrap '' @ amount @ '' WMON''),
                        [ReadContract wmonAddress ''balanceOf'' [Addr account] (Inr b)], w1))
                \<and> (amountIn \<le> b \<and>
                  writeContract E wmonAddress ''withdraw'' [Uint amountIn] None w1 = (sub, w2) \<longrightarrow>
                     take 2 (fst (snd (unwrapWMON E amount w))) =
                       [ReadContract wmonAddress ''balanceOf'' [Addr account] (Inr b),
                        WriteContract wmonAddress ''withdraw'' [Uint amountIn] None sub])))
      \<and> (toLowerCase account = toLowerCase expectedAddress \<longrightarrow>
           (getBalance E account w = (Inl e, w1) \<longrightarrow>
                stakeMON E amount w =
                  (Failure e,
                   [GetBalance account (Inl e)], w1))
           \<and> (getBalance E account w = (Inr b, w1) \<longrightarrow>
                (b < amountIn \<longrightarrow>
                     stakeMON E amount w =
                       (Failure (''Insufficient MON balance. You have '' @ formatUnits E b 18
                                 @ '' MON but tried to stake '' @ amount @ '' MON''),
                        [GetBalance account (Inr b)], w1))
                \<and> (amountIn \<le> b \<and>
                  writeContract E APRIORI_STAKING_ADDRESS ''deposit''
                    [Uint amountIn, Addr account] (Some amountIn) w1 = (sub, w2) \<longrightarrow>
                     take 2 (fst (snd (stakeMON E amount w))) =
                       [GetBalance account (Inr b),
                        WriteContract APRIORI_STAKING_ADDRESS ''deposit''
                          [Uint amountIn, Addr account] (Some amountIn) sub]))))"
  using key acct
  apply (intro conjI impI; (elim conjE)?)
  subgoal by (simp add: wrap_sym)
  subgoal by (simp add: wrap_sym)
  subgoal by (auto simp add: wrap_sym split: sum.splits prod.splits)
  subgoal by (simp add: wrap_sym)
  subgoal by (simp add: wrap_sym)
  subgoal by (auto simp add: wrap_sym split: sum.splits prod.splits)
  subgoal by (simp add: wrap_sym)
  subgoal by (simp add: wrap_sym)
  subgoal by (auto simp add: wrap_sym split: sum.splits prod.splits)
  done

text \<open>A wallet without funds fails in all three operations after the one query; the
  funded wallet wraps.\<close>

theorem balance_checked_by_wrap_unwrap_stake_witness:
  "wrapMON emptyWalletEnv ''1'' () =
     (Failure ''Insufficient MON balance. You have formatted MON but trying to wrap 1 MON'',
      [GetBalance expectedAddress (Inr 0)], ())
   \<and> unwrapWMON emptyWalletEnv ''1'' () =
     (Failure ''Insufficient WMON balance. You have formatted WMON but trying to unwrap 1 WMON'',
      [ReadContract wmonAddress ''balanceOf'' [Addr expectedAddress] (Inr 0)], ())
   \<and> stakeMON emptyWalletEnv ''1'' () =
     (Failure ''Insufficient MON balance. You have formatted MON but tried to stake 1 MON'',
      [GetBalance expectedAddress (Inr 0)], ())
   \<and> take 2 (fst (snd (wrapMON mockEnv ''1'' ()))) =
     [GetBalance expectedAddress (Inr (2 * 10 ^ 18)),
      WriteContract wmonAddress ''deposit'' [] (Some (10 ^ 18)) (Inr ''0xdeposit'')]"
proof -
  have poor:
    "parseUnits emptyWalletEnv ''1'' 18 = Inr (10 ^ 18)"
    "configImports emptyWalletEnv"
    "getBalance emptyWalletEnv expectedAddress () = (Inr 0, ())"
    "readContract emptyWalletEnv wmonAddress ''balanceOf'' [Addr expectedAddress] ()
       = (Inr 0, ())"
    "formatUnits emptyWalletEnv 0 18 = ''formatted''"
    by (simp_all add: emptyWalletEnv_def mockEnv_def)
  have rich:
    "parseUnits mockEnv ''1'' 18 = Inr (10 ^ 18)"
    "configImports mockEnv"
    "getBalance mockEnv expectedAddress () = (Inr (2 * 10 ^ 18), ())"
    "writeContract mockEnv wmonAddress ''deposit'' [] (Some (10 ^ 18)) ()
       = (Inr ''0xdeposit'', ())"
    by (simp_all add: mockEnv_def)
  from balance_checked_by_wrap_unwrap_stake
         [OF empty_wallet_key(1) mock_key(2) empty_wallet_key(2),
          where amount = "''1''" and amountIn = "10 ^ 18" and w = "()" and b = 0
            and ?w1.0 = "()"]
       poor
  have one:
    "wrapMON emptyWalletEnv ''1'' () =
       (Failure ''Insufficient MON balance. You have formatted MON but trying to wrap 1 MON'',
        [GetBalance expectedAddress (Inr 0)], ())"
    "unwrapWMON emptyWalletEnv ''1'' () =
       (Failure ''Insufficient WMON balance. You have formatted WMON but trying to unwrap 1 WMON'',
        [ReadContract wmonAddress ''balanceOf'' [Addr expectedAddress] (Inr 0)], ())"
    "stakeMON emptyWalletEnv ''1'' () =
       (Failure ''Insufficient MON balance. You have formatted MON but tried to stake 1 MON'',
        [GetBalance expectedAddress (Inr 0)], ())"
    by simp_all
  from balance_checked_by_wrap_unwrap_stake
         [OF mock_key,
          where amount = "''1''" and amountIn = "10 ^ 18" and w = "()" and b = "2 * 10 ^ 18"
            and ?w1.0 = "()" and sub = "Inr ''0xdeposit''" and ?w2.0 = "()"]
       rich
  have two:
    "take 2 (fst (snd (wrapMON mockEnv ''1'' ()))) =
       [GetBalance expectedAddress (Inr (2 * 10 ^ 18)),
        WriteContract wmonAddress ''deposit'' [] (Some (10 ^ 18)) (Inr ''0xdeposit'')]"
    by simp
  from one two show ?thesis by simp
qed

text \<open>
  Claim C7 as stated fails for swaps: with a wallet whose every balance is zero,
  \<^verbatim>\<open>executeSwap\<close> of one MON makes no balance query and submits the swap transaction with
  a value of one MON.
\<close>

theorem swap_submits_unchecked:
  "getBalance emptyWalletEnv expectedAddress () = (Inr 0, ())
   \<and> parseUnits emptyWalletEnv ''1'' 18 = Inr (10 ^ 18)
   \<and> executeSwap emptyWalletEnv ''MON'' ''USDC'' ''1'' 2 () =
      (Success \<lparr>fromToken = ''MON'', toToken = ''USDC'', fromAmount = ''1'',
                toAmount = ''1'', txHash = ''0xswapExactETHForTokens'',
                blockNumber = 7, sender = expectedAddress\<rparr>,
       [GetBlock (Inr 1700000000),
        ReadContractArray SWAP_ROUTER_ADDRESS ''getAmountsOut''
          [Uint (10 ^ 18), AddrArray [''0x760AfE86e5de5fa0Ee542fc7B7B713e1c5425701'',
                                      ''0xf817257fed379853cDe0fa4F97AB987181B1E5Ea'']]
          (Inr [0, 1000000]),
        WriteContract SWAP_ROUTER_ADDRESS ''swapExactETHForTokens''
          [Uint 980000, AddrArray [''0x760AfE86e5de5fa0Ee542fc7B7B713e1c5425701'',
                                   ''0xf817257fed379853cDe0fa4F97AB987181B1E5Ea''],
           Addr expectedAddress, Uint 1700001200] (Some (10 ^ 18))
          (Inr ''0xswapExactETHForTokens''),
        WaitForTransactionReceipt ''0xswapExactETHForTokens'' 60000 1
          (Inr (minedReceipt ''success'' ''0xswapExactETHForTokens''))], ())"
  by (simp add: emptyWalletEnv_def mockEnv_def swap_default_eval normalize_MON_USDC)

end
